theory Spec2Isabelle
  imports Complex_Main "HOL-Library.Log_Nat"
begin

section \<open>Go arithmetic and \<open>image.Rectangle\<close>\<close>

text \<open>
  Go's \<open>int\<close> is modelled by \<open>int\<close>: every integer of the tracker is a pixel
  coordinate, a pixel size or a small counter, far from the 64-bit range.
  Go's integer division truncates towards zero, HOL's \<open>div\<close> rounds down, so the
  division of the source is \<open>quot\<close>.
\<close>

definition quot :: "int \<Rightarrow> int \<Rightarrow> int" where
  "quot a b = sgn a * sgn b * (\<bar>a\<bar> div \<bar>b\<bar>)"

subsection \<open>\<open>float64\<close>\<close>

text \<open>
  Where the source computes with \<open>float64\<close> (the growth cap and the size ratio) the
  model computes as IEEE 754 binary64 does: a value is a rational with a significand of
  53 bits (\<open>Fin q\<close>, \<open>Fin 0\<close> being \<open>+0\<close>), \<open>-0\<close>, an infinity or NaN, and every
  operation rounds the exact result to the nearest value, ties to the even significand.
  \<open>binade q\<close> is the exponent \<open>e\<close> with \<open>2^e \<le> |q| < 2^(e+1)\<close>; below
  \<open>2^-1022\<close> the values are subnormal and spaced \<open>2^-1074\<close> apart; a rounded
  magnitude of \<open>2^1024\<close> or more is an infinity.
\<close>

datatype float64 = Fin rat | NegZero | PosInf | NegInf | NaN

definition round_half_even :: "rat \<Rightarrow> int" where
  "round_half_even x =
     (let f = \<lfloor>x\<rfloor>; d = x - of_int f
      in if d < 1 / 2 then f else if 1 / 2 < d then f + 1
         else if even f then f else f + 1)"

definition pow2 :: "int \<Rightarrow> rat" where
  "pow2 e = (if 0 \<le> e then 2 ^ nat e else 1 / 2 ^ nat (- e))"

definition binade :: "rat \<Rightarrow> int" where
  "binade q =
     (let (a, b) = quotient_of \<bar>q\<bar>; d = bitlen a - bitlen b
      in if pow2 d \<le> \<bar>q\<bar> then d else d - 1)"

definition round_float64 :: "rat \<Rightarrow> float64" where
  "round_float64 q =
     (if q = 0 then Fin 0
      else
        (let e = max (binade q) (- 1022);
             u = pow2 (e - 52);
             r = of_int (round_half_even (q / u)) * u
         in if 2 ^ 1024 \<le> \<bar>r\<bar> then (if 0 < q then PosInf else NegInf)
            else if r = 0 then (if 0 < q then Fin 0 else NegZero)
            else Fin r))"

fun is_zero :: "float64 \<Rightarrow> bool" where
  "is_zero (Fin q) = (q = 0)"
| "is_zero NegZero = True"
| "is_zero _ = False"

fun is_inf :: "float64 \<Rightarrow> bool" where
  "is_inf PosInf = True"
| "is_inf NegInf = True"
| "is_inf _ = False"

fun negative :: "float64 \<Rightarrow> bool" where
  "negative (Fin q) = (q < 0)"
| "negative NegZero = True"
| "negative NegInf = True"
| "negative _ = False"

fun finite_value :: "float64 \<Rightarrow> rat" where
  "finite_value (Fin q) = q"
| "finite_value _ = 0"

text \<open>\<open>a * b\<close>, \<open>a / b\<close> and \<open>a < b\<close> on \<open>float64\<close>; \<open>a > b\<close> is \<open>b < a\<close>.\<close>

definition float64_mul :: "float64 \<Rightarrow> float64 \<Rightarrow> float64" where
  "float64_mul a b =
     (if a = NaN \<or> b = NaN then NaN
      else if (is_inf a \<and> is_zero b) \<or> (is_zero a \<and> is_inf b) then NaN
      else if is_inf a \<or> is_inf b then (if negative a \<noteq> negative b then NegInf else PosInf)
      else if is_zero a \<or> is_zero b then (if negative a \<noteq> negative b then NegZero else Fin 0)
      else round_float64 (finite_value a * finite_value b))"

definition float64_div :: "float64 \<Rightarrow> float64 \<Rightarrow> float64" where
  "float64_div a b =
     (if a = NaN \<or> b = NaN then NaN
      else if (is_inf a \<and> is_inf b) \<or> (is_zero a \<and> is_zero b) then NaN
      else if is_inf a \<or> is_zero b then (if negative a \<noteq> negative b then NegInf else PosInf)
      else if is_inf b \<or> is_zero a then (if negative a \<noteq> negative b then NegZero else Fin 0)
      else round_float64 (finite_value a / finite_value b))"

definition float64_less :: "float64 \<Rightarrow> float64 \<Rightarrow> bool" where
  "float64_less a b =
     (if a = NaN \<or> b = NaN then False
      else if a = PosInf \<or> b = NegInf then False
      else if a = NegInf \<or> b = PosInf then True
      else finite_value a < finite_value b)"

text \<open>The conversion \<open>float64(n)\<close> of an integer.\<close>

definition float64_of_int :: "int \<Rightarrow> float64" where
  "float64_of_int n = round_float64 (of_int n)"

text \<open>
  The conversion \<open>int(f)\<close> truncates towards zero. Where the truncated value is not
  an \<open>int64\<close>, and for an infinity or NaN, Go leaves the result to the implementation;
  the model returns \<open>-2^63\<close>, the result of the conversion instruction of amd64.
\<close>

definition int_of_float64 :: "float64 \<Rightarrow> int" where
  "int_of_float64 f =
     (case f of
        Fin q \<Rightarrow>
          (let t = (if 0 \<le> q then \<lfloor>q\<rfloor> else \<lceil>q\<rceil>)
           in if - (2 ^ 63) \<le> t \<and> t < 2 ^ 63 then t else - (2 ^ 63))
      | NegZero \<Rightarrow> 0
      | _ \<Rightarrow> - (2 ^ 63))"

subsection \<open>\<open>image.Rectangle\<close>\<close>

text \<open>
  \<open>image.Rectangle\<close> holds two points \<open>Min\<close> and \<open>Max\<close>; the record has their
  four coordinates. \<open>Rect\<close> is \<open>image.Rect\<close>, which swaps the coordinates of an
  axis given in the wrong order; \<open>ZR\<close> is the zero value \<open>image.Rectangle{}\<close>.
\<close>

record Rectangle =
  MinX :: int
  MinY :: int
  MaxX :: int
  MaxY :: int

definition ZR :: Rectangle where
  "ZR = \<lparr>MinX = 0, MinY = 0, MaxX = 0, MaxY = 0\<rparr>"

definition Rect :: "int \<Rightarrow> int \<Rightarrow> int \<Rightarrow> int \<Rightarrow> Rectangle" where
  "Rect x0 y0 x1 y1 =
     \<lparr>MinX = (if x0 > x1 then x1 else x0),
      MinY = (if y0 > y1 then y1 else y0),
      MaxX = (if x0 > x1 then x0 else x1),
      MaxY = (if y0 > y1 then y0 else y1)\<rparr>"

definition Dx :: "Rectangle \<Rightarrow> int" where
  "Dx r = MaxX r - MinX r"

definition Dy :: "Rectangle \<Rightarrow> int" where
  "Dy r = MaxY r - MinY r"

definition Empty :: "Rectangle \<Rightarrow> bool" where
  "Empty r = (MinX r \<ge> MaxX r \<or> MinY r \<ge> MaxY r)"

definition Add :: "Rectangle \<Rightarrow> int \<Rightarrow> int \<Rightarrow> Rectangle" where
  "Add r px py =
     \<lparr>MinX = MinX r + px, MinY = MinY r + py,
      MaxX = MaxX r + px, MaxY = MaxY r + py\<rparr>"

section \<open>utils.ConstrainBoundingBox\<close>

text \<open>
  The four translations at the end of \<open>ConstrainBoundingBox\<close> run in the order of
  the source: left edge, top edge, right edge, bottom edge, each on the rectangle the
  one before left.
\<close>

definition keep_in_bounds :: "Rectangle \<Rightarrow> int \<Rightarrow> int \<Rightarrow> Rectangle" where
  "keep_in_bounds newRect imgWidth imgHeight =
     (let r1 = (if MinX newRect < 0 then Add newRect (- MinX newRect) 0 else newRect);
          r2 = (if MinY r1 < 0 then Add r1 0 (- MinY r1) else r1);
          r3 = (if MaxX r2 > imgWidth then Add r2 (imgWidth - MaxX r2) 0 else r2);
          r4 = (if MaxY r3 > imgHeight then Add r3 0 (imgHeight - MaxY r3) else r3)
      in r4)"

text \<open>The size one dimension is clamped to: the growth cap first, the floor after it.\<close>

definition clamp_size :: "int \<Rightarrow> int \<Rightarrow> int \<Rightarrow> int" where
  "clamp_size current maxAllowedSize minSize =
     (let n = (if current > maxAllowedSize then maxAllowedSize else current)
      in if n < minSize then minSize else n)"

text \<open>\<open>maxAllowedSize := int(float64(initialSize) * maxGrowth)\<close>.\<close>

definition max_allowed_size :: "int \<Rightarrow> float64 \<Rightarrow> int" where
  "max_allowed_size initialSize maxGrowth =
     int_of_float64 (float64_mul (float64_of_int initialSize) maxGrowth)"

definition ConstrainBoundingBox ::
  "Rectangle \<Rightarrow> int \<Rightarrow> float64 \<Rightarrow> int \<Rightarrow> int \<Rightarrow> int \<Rightarrow> Rectangle" where
  "ConstrainBoundingBox rect initialSize maxGrowth minSize imgWidth imgHeight =
     (let currentWidth = Dx rect;
          currentHeight = Dy rect;
          maxAllowedSize = max_allowed_size initialSize maxGrowth;
          newWidth = clamp_size currentWidth maxAllowedSize minSize;
          newHeight = clamp_size currentHeight maxAllowedSize minSize;
          centerX = MinX rect + quot (Dx rect) 2;
          centerY = MinY rect + quot (Dy rect) 2;
          halfWidth = quot newWidth 2;
          halfHeight = quot newHeight 2;
          newRect = Rect (centerX - halfWidth) (centerY - halfHeight)
                         (centerX + halfWidth) (centerY + halfHeight)
      in keep_in_bounds newRect imgWidth imgHeight)"

section \<open>The state, the configuration and a frame\<close>

text \<open>
  \<open>types.AppState\<close> with the fields the tracking and input code read and write. The
  tracker, the background subtractor and the mask are external; the recording and
  debug-log fields play no part in tracking and are left out.
\<close>

record AppState =
  TrackingEnabled :: bool
  AutoTrackingEnabled :: bool
  ROI :: Rectangle
  InitialROISize :: int
  TrackingFailureCount :: int
  LastKnownRect :: Rectangle
  ROISelectionMode :: bool
  ROICenterX :: int
  ROICenterY :: int
  ROIWidth :: int
  ROIHeight :: int
  FrameCount :: int
  DebugMode :: bool

record TrackingConfig =
  MaxROIGrowth :: float64
  MinROISize :: int
  MaxTrackingFailures :: int
  SearchRadius :: int
  SizeChangeThreshold :: float64
  MinContourArea :: rat
  StabilizationFrames :: int

definition DefaultTrackingConfig :: TrackingConfig where
  "DefaultTrackingConfig =
     \<lparr>MaxROIGrowth = Fin 2, MinROISize = 40, MaxTrackingFailures = 12, SearchRadius = 120,
      SizeChangeThreshold = Fin 5, MinContourArea = 500, StabilizationFrames = 30\<rparr>"

text \<open>
  A contour, as far as the code looks at it: \<open>gocv.ContourArea\<close> and
  \<open>gocv.BoundingRect\<close>. The areas and \<open>MinContourArea\<close> are \<open>float64\<close> values
  that the code only compares; they are the rationals they denote.
\<close>

record Contour =
  ContourArea :: rat
  BoundingRect :: Rectangle

text \<open>
  One frame of the main loop, with the answers the external capabilities give on it:
  the size of the frame, what \<open>Tracker.Update\<close> returns, what \<open>Tracker.Init\<close>
  returns on a region, whether \<open>BackSub.Apply\<close> fails, and the contours found in the
  foreground mask. Nothing is assumed about these answers.
\<close>

record Frame =
  Cols :: int
  Rows :: int
  TrackerUpdate :: "Rectangle \<times> bool"
  TrackerInit :: "Rectangle \<Rightarrow> bool"
  BackSubError :: bool
  Contours :: "Contour list"

section \<open>tracking\<close>

text \<open>
  The four field assignments that cut a rectangle at the frame's edges, written out in
  \<open>TryTrackingRecovery\<close> and in \<open>ProcessAutoTracking\<close>.
\<close>

definition clip_to_frame :: "Rectangle \<Rightarrow> Frame \<Rightarrow> Rectangle" where
  "clip_to_frame r frame =
     (let r1 = (if MinX r < 0 then r\<lparr>MinX := 0\<rparr> else r);
          r2 = (if MinY r1 < 0 then r1\<lparr>MinY := 0\<rparr> else r1);
          r3 = (if MaxX r2 > Cols frame then r2\<lparr>MaxX := Cols frame\<rparr> else r2);
          r4 = (if MaxY r3 > Rows frame then r3\<lparr>MaxY := Rows frame\<rparr> else r3)
      in r4)"

definition TryTrackingRecovery :: "Frame \<Rightarrow> Rectangle \<Rightarrow> int \<Rightarrow> bool" where
  "TryTrackingRecovery frame lastRect searchRadius =
     (let centerX = MinX lastRect + quot (Dx lastRect) 2;
          centerY = MinY lastRect + quot (Dy lastRect) 2;
          searchRect = Rect (centerX - searchRadius) (centerY - searchRadius)
                            (centerX + searchRadius) (centerY + searchRadius)
      in TrackerInit frame (clip_to_frame searchRect frame))"

text \<open>
  The loop of \<open>ProcessAutoTracking\<close> over the contours: \<open>i\<close> is the index of the
  head of the list, \<open>largestArea\<close> and \<open>largestContourIndex\<close> are the loop's two
  variables. The source starts it at \<open>i = 0\<close>, \<open>largestArea = 0\<close>,
  \<open>largestContourIndex = -1\<close>.
\<close>

fun largest_contour_loop :: "Contour list \<Rightarrow> rat \<Rightarrow> int \<Rightarrow> rat \<Rightarrow> int \<Rightarrow> int" where
  "largest_contour_loop [] minContourArea i largestArea largestContourIndex =
     largestContourIndex"
| "largest_contour_loop (contour # rest) minContourArea i largestArea largestContourIndex =
     (let area = ContourArea contour
      in if area > largestArea \<and> area > minContourArea
         then largest_contour_loop rest minContourArea (i + 1) area i
         else largest_contour_loop rest minContourArea (i + 1) largestArea largestContourIndex)"

definition largest_contour :: "Contour list \<Rightarrow> rat \<Rightarrow> int" where
  "largest_contour contours minContourArea =
     largest_contour_loop contours minContourArea 0 0 (- 1)"

text \<open>The region handed to the tracker: the bounding rectangle padded and cut.\<close>

definition padded_roi :: "Rectangle \<Rightarrow> Frame \<Rightarrow> Rectangle" where
  "padded_roi roi frame =
     (let padding = 20
      in clip_to_frame (Rect (MinX roi - padding) (MinY roi - padding)
                             (MaxX roi + padding) (MaxY roi + padding)) frame)"

definition ProcessAutoTracking :: "AppState \<Rightarrow> Frame \<Rightarrow> TrackingConfig \<Rightarrow> AppState" where
  "ProcessAutoTracking state frame config =
     (if TrackingEnabled state \<or> \<not> AutoTrackingEnabled state \<or> ROISelectionMode state
         \<or> FrameCount state \<le> StabilizationFrames config
      then state
      else if BackSubError frame then state
      else
        (let contours = Contours frame;
             largestContourIndex = largest_contour contours (MinContourArea config)
         in if largestContourIndex \<ge> 0
            then
              (let largestContour = contours ! nat largestContourIndex;
                   roi = padded_roi (BoundingRect largestContour) frame
               in if TrackerInit frame roi
                  then state\<lparr>ROI := roi, TrackingEnabled := True,
                             AutoTrackingEnabled := False,
                             InitialROISize := quot (Dx roi + Dy roi) 2\<rparr>
                  else state)
            else state))"

text \<open>
  The drift test of \<open>ProcessTracking\<close>:
  \<open>sizeRatio := float64(currentSize) / float64(lastSize)\<close> and
  \<open>sizeRatio > threshold || sizeRatio < 1.0 / threshold\<close>, in \<open>float64\<close>.
\<close>

definition suspicious_size_change :: "Rectangle \<Rightarrow> Rectangle \<Rightarrow> float64 \<Rightarrow> bool" where
  "suspicious_size_change rect lastKnownRect threshold =
     (let currentSize = quot (Dx rect + Dy rect) 2;
          lastSize = quot (Dx lastKnownRect + Dy lastKnownRect) 2;
          sizeRatio = float64_div (float64_of_int currentSize) (float64_of_int lastSize)
      in float64_less threshold sizeRatio
         \<or> float64_less sizeRatio (float64_div (Fin 1) threshold))"

definition ProcessTracking ::
  "AppState \<Rightarrow> Frame \<Rightarrow> TrackingConfig \<Rightarrow> AppState \<times> Rectangle" where
  "ProcessTracking state frame config =
     (if \<not> TrackingEnabled state then (state, ZR)
      else
        (let (rect, ok) = TrackerUpdate frame
         in if ok
            then
              (let state1 = state\<lparr>TrackingFailureCount := 0\<rparr>
               in if \<not> Empty (LastKnownRect state1)
                     \<and> suspicious_size_change rect (LastKnownRect state1)
                           (SizeChangeThreshold config)
                  then (state1\<lparr>TrackingFailureCount := TrackingFailureCount state1 + 1\<rparr>,
                        LastKnownRect state1)
                  else
                    (let rect' = ConstrainBoundingBox rect (InitialROISize state1)
                                   (MaxROIGrowth config) (MinROISize config)
                                   (Cols frame) (Rows frame)
                     in (state1\<lparr>LastKnownRect := rect'\<rparr>, rect')))
            else
              (let state1 = state\<lparr>TrackingFailureCount := TrackingFailureCount state + 1\<rparr>
               in if TrackingFailureCount state1 \<ge> MaxTrackingFailures config
                  then
                    (let state2 = state1\<lparr>TrackingEnabled := False,
                                         TrackingFailureCount := 0\<rparr>
                     in (if \<not> ROISelectionMode state2
                         then state2\<lparr>AutoTrackingEnabled := True\<rparr>
                         else state2, ZR))
                  else if \<not> Empty (LastKnownRect state1)
                  then
                    (if TryTrackingRecovery frame (LastKnownRect state1) (SearchRadius config)
                     then state1\<lparr>TrackingFailureCount := 0\<rparr>
                     else state1, LastKnownRect state1)
                  else (state1, ZR))))"

definition InitializeTracking :: "AppState \<Rightarrow> Frame \<Rightarrow> Rectangle \<Rightarrow> AppState \<times> bool" where
  "InitializeTracking state frame roi =
     (if TrackerInit frame roi
      then (state\<lparr>ROI := roi, TrackingEnabled := True, ROISelectionMode := False,
                  AutoTrackingEnabled := False,
                  InitialROISize := quot (Dx roi + Dy roi) 2\<rparr>, True)
      else (state, False))"

definition ResetTracking :: "AppState \<Rightarrow> AppState" where
  "ResetTracking state =
     state\<lparr>TrackingEnabled := False, AutoTrackingEnabled := True,
           ROISelectionMode := False, FrameCount := 0\<rparr>"

definition EnableAutoTracking :: "AppState \<Rightarrow> AppState" where
  "EnableAutoTracking state =
     (if \<not> ROISelectionMode state
      then state\<lparr>AutoTrackingEnabled := True, TrackingEnabled := False, FrameCount := 0\<rparr>
      else state)"

section \<open>input\<close>

text \<open>
  The handlers return the new state and, where the source returns one, the flag that
  asks the main loop to quit. Stopping the recording touches no modelled field.
\<close>

definition HandleEscapeKey :: "AppState \<Rightarrow> AppState \<times> bool" where
  "HandleEscapeKey state =
     (if ROISelectionMode state
      then
        (let state1 = state\<lparr>ROISelectionMode := False\<rparr>
         in (if \<not> TrackingEnabled state1
             then state1\<lparr>AutoTrackingEnabled := True\<rparr>
             else state1, False))
      else (state, True))"

text \<open>
  The keys are the codes the source switches on:
  \<open>'q' = 113\<close>, \<open>'s' = 115\<close>, \<open>'a' = 97\<close>, \<open>'r' = 114\<close>, \<open>'v' = 118\<close>,
  \<open>'d' = 100\<close>, \<open>'+' = 43\<close>, \<open>'=' = 61\<close>, \<open>'-' = 45\<close>, \<open>'_' = 95\<close>,
  ENTER \<open>= 13\<close>, ESC \<open>= 27\<close>, and 0 to 3 for the arrows.
\<close>

definition HandleMainKeys :: "int \<Rightarrow> AppState \<Rightarrow> Frame \<Rightarrow> AppState \<times> bool" where
  "HandleMainKeys key state frame =
     (if key = 113 then (state, True)
      else if key = 115 then
        (if \<not> ROISelectionMode state
         then (state\<lparr>AutoTrackingEnabled := False, TrackingEnabled := False,
                     ROISelectionMode := True,
                     ROICenterX := quot (Cols frame) 2,
                     ROICenterY := quot (Rows frame) 2\<rparr>, False)
         else (state, False))
      else if key = 97 then
        (if \<not> ROISelectionMode state
         then (if AutoTrackingEnabled state
               then (state\<lparr>AutoTrackingEnabled := False, TrackingEnabled := False\<rparr>, False)
               else (EnableAutoTracking state, False))
         else (state, False))
      else if key = 114 then (ResetTracking state, False)
      else if key = 118 then (state, False)
      else if key = 100 then (state\<lparr>DebugMode := \<not> DebugMode state\<rparr>, False)
      else (state, False))"

definition HandleROIKeys :: "int \<Rightarrow> AppState \<Rightarrow> Frame \<Rightarrow> AppState" where
  "HandleROIKeys key state frame =
     (if \<not> ROISelectionMode state then state
      else if key = 0 then
        (let state1 = state\<lparr>ROICenterY := ROICenterY state - 10\<rparr>
         in if ROICenterY state1 < quot (ROIHeight state1) 2
            then state1\<lparr>ROICenterY := quot (ROIHeight state1) 2\<rparr> else state1)
      else if key = 1 then
        (let state1 = state\<lparr>ROICenterY := ROICenterY state + 10\<rparr>
         in if ROICenterY state1 > Rows frame - quot (ROIHeight state1) 2
            then state1\<lparr>ROICenterY := Rows frame - quot (ROIHeight state1) 2\<rparr> else state1)
      else if key = 2 then
        (let state1 = state\<lparr>ROICenterX := ROICenterX state - 10\<rparr>
         in if ROICenterX state1 < quot (ROIWidth state1) 2
            then state1\<lparr>ROICenterX := quot (ROIWidth state1) 2\<rparr> else state1)
      else if key = 3 then
        (let state1 = state\<lparr>ROICenterX := ROICenterX state + 10\<rparr>
         in if ROICenterX state1 > Cols frame - quot (ROIWidth state1) 2
            then state1\<lparr>ROICenterX := Cols frame - quot (ROIWidth state1) 2\<rparr> else state1)
      else if key = 43 \<or> key = 61 then
        (let state1 = state\<lparr>ROIWidth := ROIWidth state + 20,
                             ROIHeight := ROIHeight state + 20\<rparr>;
             state2 = (if ROIWidth state1 > Cols frame
                       then state1\<lparr>ROIWidth := Cols frame\<rparr> else state1)
         in if ROIHeight state2 > Rows frame
            then state2\<lparr>ROIHeight := Rows frame\<rparr> else state2)
      else if key = 45 \<or> key = 95 then
        (let state1 = state\<lparr>ROIWidth := ROIWidth state - 20,
                             ROIHeight := ROIHeight state - 20\<rparr>;
             state2 = (if ROIWidth state1 < 40 then state1\<lparr>ROIWidth := 40\<rparr> else state1)
         in if ROIHeight state2 < 40 then state2\<lparr>ROIHeight := 40\<rparr> else state2)
      else if key = 13 then
        (let halfWidth = quot (ROIWidth state) 2;
             halfHeight = quot (ROIHeight state) 2;
             x1 = ROICenterX state - halfWidth;
             y1 = ROICenterY state - halfHeight;
             x2 = ROICenterX state + halfWidth;
             y2 = ROICenterY state + halfHeight;
             x1' = (if x1 < 0 then 0 else x1);
             y1' = (if y1 < 0 then 0 else y1);
             x2' = (if x2 > Cols frame then Cols frame else x2);
             y2' = (if y2 > Rows frame then Rows frame else y2);
             roi = Rect x1' y1' x2' y2';
             (state1, ok) = InitializeTracking state frame roi
         in if ok then state1 else state1\<lparr>ROISelectionMode := False\<rparr>)
      else state)"

definition InitializeROISelection :: "AppState \<Rightarrow> AppState" where
  "InitializeROISelection state =
     state\<lparr>ROICenterX := 320, ROICenterY := 240, ROIWidth := 100, ROIHeight := 100\<rparr>"

definition ProcessInput :: "int \<Rightarrow> AppState \<Rightarrow> Frame \<Rightarrow> AppState \<times> bool" where
  "ProcessInput key state frame =
     (if key = 27 then HandleEscapeKey state
      else
        (let (state1, shouldQuit) = HandleMainKeys key state frame
         in if shouldQuit then (state1, True)
            else (HandleROIKeys key state1 frame, False)))"

section \<open>The main loop\<close>

text \<open>
  The body of the loop of \<open>main\<close> from the frame count to \<open>ProcessTracking\<close>; the
  key read after the frame is shown is handled by \<open>ProcessInput\<close>.
\<close>

definition frame_step :: "TrackingConfig \<Rightarrow> AppState \<Rightarrow> Frame \<Rightarrow> AppState \<times> Rectangle" where
  "frame_step config state frame =
     (let state1 = state\<lparr>FrameCount := FrameCount state + 1\<rparr>;
          state2 = ProcessAutoTracking state1 frame config;
          state3 = (if \<not> TrackingEnabled state2 \<and> \<not> AutoTrackingEnabled state2
                       \<and> \<not> ROISelectionMode state2
                    then state2\<lparr>AutoTrackingEnabled := True\<rparr> else state2)
      in ProcessTracking state3 frame config)"

fun run_frames :: "TrackingConfig \<Rightarrow> AppState \<Rightarrow> Frame list \<Rightarrow> AppState" where
  "run_frames config state [] = state"
| "run_frames config state (frame # frames) =
     run_frames config (fst (frame_step config state frame)) frames"

text \<open>A sequence of keys handled by \<open>HandleROIKeys\<close> on frames of one size.\<close>

fun roi_keys :: "int list \<Rightarrow> AppState \<Rightarrow> Frame \<Rightarrow> AppState" where
  "roi_keys [] state frame = state"
| "roi_keys (key # keys) state frame = roi_keys keys (HandleROIKeys key state frame) frame"

section \<open>Vocabulary of the properties\<close>

text \<open>A rectangle lies in the frame of the given width and height.\<close>

definition in_frame :: "Rectangle \<Rightarrow> int \<Rightarrow> int \<Rightarrow> bool" where
  "in_frame r w h = (0 \<le> MinX r \<and> 0 \<le> MinY r \<and> MaxX r \<le> w \<and> MaxY r \<le> h)"

text \<open>
  The selection rectangle of the state: centre plus and minus the half dimensions, as
  the ENTER case of \<open>HandleROIKeys\<close> computes it before it cuts it at the frame.
\<close>

definition selection_rect :: "AppState \<Rightarrow> Rectangle" where
  "selection_rect state =
     \<lparr>MinX = ROICenterX state - quot (ROIWidth state) 2,
      MinY = ROICenterY state - quot (ROIHeight state) 2,
      MaxX = ROICenterX state + quot (ROIWidth state) 2,
      MaxY = ROICenterY state + quot (ROIHeight state) 2\<rparr>"

text \<open>
  The size bounds of the constrainer's contract: both dimensions between the floor and
  the larger of the floor and \<open>maxAllowedSize\<close>, which is
  \<open>initialSize * maxGrowth\<close> as the code computes it.
\<close>

definition size_bounds :: "Rectangle \<Rightarrow> int \<Rightarrow> float64 \<Rightarrow> int \<Rightarrow> bool" where
  "size_bounds r initialSize maxGrowth minSize =
     (minSize \<le> Dx r \<and> Dx r \<le> max minSize (max_allowed_size initialSize maxGrowth)
      \<and> minSize \<le> Dy r \<and> Dy r \<le> max minSize (max_allowed_size initialSize maxGrowth))"

text \<open>
  A frame on which the tracker's update succeeds and the drift test of
  \<open>ProcessTracking\<close> fires, in the state the frame is processed in; and a run of
  frames each of which is one, in the state the frames before it leave.
\<close>

definition drift_frame :: "TrackingConfig \<Rightarrow> AppState \<Rightarrow> Frame \<Rightarrow> bool" where
  "drift_frame config state frame =
     (snd (TrackerUpdate frame) \<and> \<not> Empty (LastKnownRect state)
      \<and> suspicious_size_change (fst (TrackerUpdate frame)) (LastKnownRect state)
            (SizeChangeThreshold config))"

fun drift_run :: "TrackingConfig \<Rightarrow> AppState \<Rightarrow> Frame list \<Rightarrow> bool" where
  "drift_run config state [] = True"
| "drift_run config state (frame # frames) =
     (drift_frame config state frame
      \<and> drift_run config (fst (frame_step config state frame)) frames)"

text \<open>
  The selection rule of the detector: contour \<open>k\<close> has an area above the threshold,
  no contour has a larger area, and every contour before it has a smaller one.
\<close>

definition first_largest_above :: "Contour list \<Rightarrow> rat \<Rightarrow> nat \<Rightarrow> bool" where
  "first_largest_above contours threshold k =
     (k < length contours \<and> threshold < ContourArea (contours ! k)
      \<and> (\<forall>c \<in> set contours. ContourArea c \<le> ContourArea (contours ! k))
      \<and> (\<forall>c \<in> set (take k contours). ContourArea c < ContourArea (contours ! k)))"

text \<open>The variables \<open>newWidth\<close> and \<open>newHeight\<close> of \<open>ConstrainBoundingBox\<close>.\<close>

definition newWidth :: "Rectangle \<Rightarrow> int \<Rightarrow> float64 \<Rightarrow> int \<Rightarrow> int" where
  "newWidth rect initialSize maxGrowth minSize =
     clamp_size (Dx rect) (max_allowed_size initialSize maxGrowth) minSize"

definition newHeight :: "Rectangle \<Rightarrow> int \<Rightarrow> float64 \<Rightarrow> int \<Rightarrow> int" where
  "newHeight rect initialSize maxGrowth minSize =
     clamp_size (Dy rect) (max_allowed_size initialSize maxGrowth) minSize"

section \<open>Concrete inputs\<close>

text \<open>
  A session that tracks a target of 50 by 50 pixels, and a frame of 640 by 480 on which
  the tracker's update gives the stated answer and its initialisation accepts every
  region.
\<close>

definition tracking_state :: AppState where
  "tracking_state =
     \<lparr>TrackingEnabled = True, AutoTrackingEnabled = False, ROI = Rect 100 100 150 150,
      InitialROISize = 50, TrackingFailureCount = 0, LastKnownRect = Rect 100 100 150 150,
      ROISelectionMode = False, ROICenterX = 320, ROICenterY = 240,
      ROIWidth = 100, ROIHeight = 100, FrameCount = 100, DebugMode = False\<rparr>"

definition frame_640x480 :: "Rectangle \<times> bool \<Rightarrow> Contour list \<Rightarrow> Frame" where
  "frame_640x480 update contours =
     \<lparr>Cols = 640, Rows = 480, TrackerUpdate = update, TrackerInit = (\<lambda>r. True),
      BackSubError = False, Contours = contours\<rparr>"

text \<open>
  A session that searches, past the warm-up frames; and three contours of areas 100, 600
  and 550 with their bounding rectangles.
\<close>

definition searching_state :: AppState where
  "searching_state =
     \<lparr>TrackingEnabled = False, AutoTrackingEnabled = True, ROI = ZR,
      InitialROISize = 0, TrackingFailureCount = 0, LastKnownRect = ZR,
      ROISelectionMode = False, ROICenterX = 320, ROICenterY = 240,
      ROIWidth = 100, ROIHeight = 100, FrameCount = 100, DebugMode = False\<rparr>"

definition three_contours :: "Contour list" where
  "three_contours =
     [\<lparr>ContourArea = 100, BoundingRect = Rect 10 10 20 20\<rparr>,
      \<lparr>ContourArea = 600, BoundingRect = Rect 5 100 35 120\<rparr>,
      \<lparr>ContourArea = 550, BoundingRect = Rect 200 200 225 222\<rparr>]"

text \<open>The searching session after the key \<open>s\<close>: a manual selection has begun.\<close>

definition selecting_state :: AppState where
  "selecting_state = fst (ProcessInput 115 searching_state (frame_640x480 (ZR, False) []))"

section \<open>Facts about the arithmetic\<close>

text \<open>The equations that evaluate \<open>float64\<close> operations on integers.\<close>

lemmas float64_eval = round_float64_def binade_def pow2_def bitlen_def compute_floorlog
  round_half_even_def Let_def float64_mul_def float64_div_def float64_of_int_def
  float64_less_def int_of_float64_def

lemma max_allowed_size_50: "max_allowed_size 50 (Fin 2) = 100"
  by (simp add: max_allowed_size_def float64_eval)

lemma max_allowed_size_560: "max_allowed_size 560 (Fin 2) = 1120"
  by (simp add: max_allowed_size_def float64_eval)

lemma max_allowed_size_101: "max_allowed_size 101 (Fin 1) = 101"
  by (simp add: max_allowed_size_def float64_eval)

lemma max_allowed_size_negative: "max_allowed_size 1 (Fin (- 3)) = - 3"
  by (simp add: max_allowed_size_def float64_eval)

lemma size_ratio_6: "float64_div (float64_of_int 300) (float64_of_int 50) = Fin 6"
  by (simp add: float64_eval)

text \<open>
  Two computations that the rounding decides. The \<open>float64\<close> nearest to 0.6 is
  \<open>5404319552844595 / 2^53\<close>, a little below 0.6; a hundred times it rounds to 60,
  so the cap for \<open>initialSize = 100\<close> and \<open>maxGrowth = 0.6\<close> is 60, not 59. The
  \<open>float64\<close> nearest to 1.2 is \<open>5404319552844595 / 2^52\<close>, a little below 1.2;
  \<open>60.0 / 50.0\<close> rounds to that same value, so with the threshold 1.2 a size of 60
  against 50 is no drift.
\<close>

lemma float64_of_int_100: "float64_of_int 100 = Fin 100"
  by (simp add: float64_eval)

lemma cap_of_100_by_0_6:
  "max_allowed_size 100 (Fin (5404319552844595 / 9007199254740992)) = 60"
proof -
  define q :: rat where "q = 100 * (5404319552844595 / 9007199254740992)"
  have b: "binade q = 5" unfolding q_def by code_simp
  have r: "round_half_even (q / pow2 (- 47)) = 8444249301319680" unfolding q_def by code_simp
  have pos: "0 < q" "q \<noteq> 0" unfolding q_def by simp_all
  have "round_float64 q = Fin 60"
    using pos by (simp add: round_float64_def b r Let_def) (simp add: pow2_def)
  moreover have "float64_mul (float64_of_int 100) (Fin (5404319552844595 / 9007199254740992))
      = round_float64 q"
    unfolding q_def float64_of_int_100 by (simp add: float64_mul_def)
  ultimately show ?thesis
    by (simp add: max_allowed_size_def int_of_float64_def)
qed

lemma ratio_60_50:
  "float64_div (float64_of_int 60) (float64_of_int 50)
     = Fin (5404319552844595 / 4503599627370496)"
proof -
  define q :: rat where "q = 60 / 50"
  have b: "binade q = 0" unfolding q_def by code_simp
  have r: "round_half_even (q / pow2 (- 52)) = 5404319552844595" unfolding q_def by code_simp
  have pos: "0 < q" "q \<noteq> 0" unfolding q_def by simp_all
  have "round_float64 q = Fin (5404319552844595 / 4503599627370496)"
    using pos by (simp add: round_float64_def b r Let_def) (simp add: pow2_def)
  moreover have "float64_of_int 60 = Fin 60" "float64_of_int 50 = Fin 50"
    by (simp_all add: float64_eval)
  then have "float64_div (float64_of_int 60) (float64_of_int 50) = round_float64 q"
    unfolding q_def by (simp add: float64_div_def)
  ultimately show ?thesis by simp
qed


lemma reciprocal_of_1_2:
  "float64_div (Fin 1) (Fin (5404319552844595 / 4503599627370496))
     = Fin (7505999378950827 / 9007199254740992)"
proof -
  define q :: rat where "q = 1 / (5404319552844595 / 4503599627370496)"
  have b: "binade q = - 1" unfolding q_def by code_simp
  have r: "round_half_even (q / pow2 (- 53)) = 7505999378950827" unfolding q_def by code_simp
  have pos: "0 < q" "q \<noteq> 0" unfolding q_def by simp_all
  have "round_float64 q = Fin (7505999378950827 / 9007199254740992)"
    using pos by (simp add: round_float64_def b r Let_def) (simp add: pow2_def)
  moreover have "float64_div (Fin 1) (Fin (5404319552844595 / 4503599627370496))
      = round_float64 q"
    unfolding q_def by (simp add: float64_div_def)
  ultimately show ?thesis by simp
qed

lemma no_drift_at_rounded_ratio:
  "\<not> suspicious_size_change (Rect 0 0 60 60) (Rect 0 0 50 50)
       (Fin (5404319552844595 / 4503599627370496))"
proof -
  have "quot (Dx (Rect 0 0 60 60) + Dy (Rect 0 0 60 60)) 2 = 60"
    "quot (Dx (Rect 0 0 50 50) + Dy (Rect 0 0 50 50)) 2 = 50"
    by (simp_all add: Rect_def Dx_def Dy_def quot_def)
  then show ?thesis
    by (simp add: suspicious_size_change_def Let_def ratio_60_50 reciprocal_of_1_2
        float64_less_def)
qed

lemma constrain_at_rounded_cap:
  "ConstrainBoundingBox (Rect 0 0 200 200) 100 (Fin (5404319552844595 / 9007199254740992))
       40 640 480
     = Rect 70 70 130 130"
  by (simp add: ConstrainBoundingBox_def Let_def Rect_def Dx_def Dy_def clamp_size_def
      cap_of_100_by_0_6 quot_def keep_in_bounds_def Add_def)

lemma quot_2_nonneg: "0 \<le> a \<Longrightarrow> quot a 2 = a div 2"
  by (cases "a = 0") (simp_all add: quot_def)

lemma Dx_keep_in_bounds: "Dx (keep_in_bounds r w h) = Dx r"
  by (simp add: keep_in_bounds_def Let_def Dx_def Add_def)

lemma Dy_keep_in_bounds: "Dy (keep_in_bounds r w h) = Dy r"
  by (simp add: keep_in_bounds_def Let_def Dy_def Add_def)

lemma Dx_Rect_centered: "Dx (Rect (c - k) y0 (c + k) y1) = 2 * \<bar>k\<bar>"
  by (simp add: Rect_def Dx_def)

lemma Dy_Rect_centered: "Dy (Rect x0 (c - k) x1 (c + k)) = 2 * \<bar>k\<bar>"
  by (simp add: Rect_def Dy_def)

lemma keep_in_bounds_MinX: "MinX (keep_in_bounds r w h) =
   (if (if MinX r < 0 then 0 else MinX r) + Dx r > w then w - Dx r
    else (if MinX r < 0 then 0 else MinX r))"
  by (simp add: keep_in_bounds_def Let_def Dx_def Add_def)

lemma keep_in_bounds_MinY: "MinY (keep_in_bounds r w h) =
   (if (if MinY r < 0 then 0 else MinY r) + Dy r > h then h - Dy r
    else (if MinY r < 0 then 0 else MinY r))"
  by (simp add: keep_in_bounds_def Let_def Dy_def Add_def)

lemma MaxX_eq: "MaxX r = MinX r + Dx r"
  by (simp add: Dx_def)

lemma MaxY_eq: "MaxY r = MinY r + Dy r"
  by (simp add: Dy_def)

lemma Rectangle_eqI:
  fixes r r' :: Rectangle
  assumes "MinX r = MinX r'" "MinY r = MinY r'" "Dx r = Dx r'" "Dy r = Dy r'"
  shows "r = r'"
  using assms by (simp add: Dx_def Dy_def)

lemma keep_in_bounds_idem:
  "keep_in_bounds (keep_in_bounds r w h) w h = keep_in_bounds r w h"
  by (rule Rectangle_eqI)
     (simp_all add: keep_in_bounds_MinX keep_in_bounds_MinY Dx_keep_in_bounds Dy_keep_in_bounds)

text \<open>A rectangle no larger than the frame is moved into the frame.\<close>

lemma keep_in_bounds_in_frame:
  assumes "Dx r \<le> w" "Dy r \<le> h"
  shows "in_frame (keep_in_bounds r w h) w h"
  using assms
  by (simp add: in_frame_def MaxX_eq [of "keep_in_bounds r w h"] MaxY_eq [of "keep_in_bounds r w h"]
       keep_in_bounds_MinX keep_in_bounds_MinY Dx_keep_in_bounds Dy_keep_in_bounds)

lemma Dx_ConstrainBoundingBox:
  "Dx (ConstrainBoundingBox rect initialSize maxGrowth minSize w h) =
     2 * \<bar>quot (clamp_size (Dx rect) (max_allowed_size initialSize maxGrowth) minSize) 2\<bar>"
  by (simp add: ConstrainBoundingBox_def Let_def Dx_keep_in_bounds Dx_Rect_centered)

lemma Dy_ConstrainBoundingBox:
  "Dy (ConstrainBoundingBox rect initialSize maxGrowth minSize w h) =
     2 * \<bar>quot (clamp_size (Dy rect) (max_allowed_size initialSize maxGrowth) minSize) 2\<bar>"
  by (simp add: ConstrainBoundingBox_def Let_def Dy_keep_in_bounds Dy_Rect_centered)

lemma clamp_size_fixed:
  assumes "minSize \<le> w" and "w \<le> max minSize maxAllowedSize"
  shows "clamp_size w maxAllowedSize minSize = w"
  using assms by (auto simp add: clamp_size_def Let_def max_def split: if_splits)

lemma Dx_ConstrainBoundingBox_nonneg:
  "0 \<le> Dx (ConstrainBoundingBox rect initialSize maxGrowth minSize w h)"
  by (simp add: Dx_ConstrainBoundingBox)

lemma Dy_ConstrainBoundingBox_nonneg:
  "0 \<le> Dy (ConstrainBoundingBox rect initialSize maxGrowth minSize w h)"
  by (simp add: Dy_ConstrainBoundingBox)

lemma Rect_rebuilt:
  assumes "0 \<le> Dx r" "0 \<le> Dy r" "even (Dx r)" "even (Dy r)"
  shows "Rect (MinX r + quot (Dx r) 2 - quot (Dx r) 2) (MinY r + quot (Dy r) 2 - quot (Dy r) 2)
              (MinX r + quot (Dx r) 2 + quot (Dx r) 2) (MinY r + quot (Dy r) 2 + quot (Dy r) 2) = r"
proof -
  from assms have "quot (Dx r) 2 + quot (Dx r) 2 = Dx r" "quot (Dy r) 2 + quot (Dy r) 2 = Dy r"
    by (simp_all add: quot_2_nonneg)
  then have "MinX r + quot (Dx r) 2 + quot (Dx r) 2 = MaxX r"
      "MinY r + quot (Dy r) 2 + quot (Dy r) 2 = MaxY r"
    by (simp_all add: Dx_def Dy_def)
  moreover from assms have "MinX r \<le> MaxX r" "MinY r \<le> MaxY r"
    by (simp_all add: Dx_def Dy_def)
  ultimately show ?thesis
    by (simp add: Rect_def)
qed

lemma ConstrainBoundingBox_unfold:
  "ConstrainBoundingBox rect initialSize maxGrowth minSize W H =
     keep_in_bounds
       (Rect (MinX rect + quot (Dx rect) 2
                - quot (clamp_size (Dx rect) (max_allowed_size initialSize maxGrowth) minSize) 2)
             (MinY rect + quot (Dy rect) 2
                - quot (clamp_size (Dy rect) (max_allowed_size initialSize maxGrowth) minSize) 2)
             (MinX rect + quot (Dx rect) 2
                + quot (clamp_size (Dx rect) (max_allowed_size initialSize maxGrowth) minSize) 2)
             (MinY rect + quot (Dy rect) 2
                + quot (clamp_size (Dy rect) (max_allowed_size initialSize maxGrowth) minSize) 2))
       W H"
  by (simp add: ConstrainBoundingBox_def Let_def)

lemma rebuilt_dimension:
  fixes c M m :: int
  defines "d \<equiv> 2 * \<bar>quot (clamp_size c M m) 2\<bar>"
  shows "even d"
    and "0 \<le> clamp_size c M m \<longrightarrow> d = 2 * (clamp_size c M m div 2)"
    and "0 \<le> clamp_size c M m \<and> odd (clamp_size c M m) \<longrightarrow> d = clamp_size c M m - 1"
    and "0 \<le> m \<and> odd m \<and> c \<le> m \<longrightarrow> d = m - 1"
    and "0 \<le> M \<and> odd M \<and> m \<le> M \<and> M \<le> c \<longrightarrow> d = M - 1"
proof -
  show "even d" by (simp add: d_def)
  show half: "0 \<le> clamp_size c M m \<longrightarrow> d = 2 * (clamp_size c M m div 2)"
    by (simp add: d_def quot_2_nonneg)
  show odd: "0 \<le> clamp_size c M m \<and> odd (clamp_size c M m) \<longrightarrow> d = clamp_size c M m - 1"
  proof
    assume a: "0 \<le> clamp_size c M m \<and> odd (clamp_size c M m)"
    with half have "d = 2 * (clamp_size c M m div 2)" by simp
    also from a have "\<dots> = clamp_size c M m - 1" by presburger
    finally show "d = clamp_size c M m - 1" .
  qed
  show "0 \<le> m \<and> odd m \<and> c \<le> m \<longrightarrow> d = m - 1"
  proof
    assume a: "0 \<le> m \<and> odd m \<and> c \<le> m"
    then have "clamp_size c M m = m" by (simp add: clamp_size_def Let_def)
    with a odd show "d = m - 1" by simp
  qed
  show "0 \<le> M \<and> odd M \<and> m \<le> M \<and> M \<le> c \<longrightarrow> d = M - 1"
  proof
    assume a: "0 \<le> M \<and> odd M \<and> m \<le> M \<and> M \<le> c"
    then have "clamp_size c M m = M" by (simp add: clamp_size_def Let_def)
    with a odd show "d = M - 1" by simp
  qed
qed

section \<open>Facts about \<open>ProcessTracking\<close>\<close>

lemma ProcessTracking_drift:
  assumes "TrackingEnabled state" and "drift_frame config state frame"
  shows "ProcessTracking state frame config
           = (state\<lparr>TrackingFailureCount := 1\<rparr>, LastKnownRect state)"
  using assms
  by (cases "TrackerUpdate frame") (simp add: ProcessTracking_def drift_frame_def Let_def)

lemma ProcessTracking_give_up:
  assumes "TrackingEnabled state" and "\<not> snd (TrackerUpdate frame)"
    and "MaxTrackingFailures config \<le> TrackingFailureCount state + 1"
  shows "ProcessTracking state frame config
           = (state\<lparr>TrackingFailureCount := 0, TrackingEnabled := False,
                     AutoTrackingEnabled := (\<not> ROISelectionMode state \<or> AutoTrackingEnabled state)\<rparr>,
              ZR)"
  using assms
  by (cases "TrackerUpdate frame"; cases "AutoTrackingEnabled state")
     (simp_all add: ProcessTracking_def Let_def)

lemma ProcessTracking_success_keeps_tracking:
  assumes "TrackingEnabled state" and "snd (TrackerUpdate frame)"
  shows "TrackingEnabled (fst (ProcessTracking state frame config))"
  using assms
  by (cases "TrackerUpdate frame") (simp add: ProcessTracking_def Let_def)

lemma frame_step_tracking:
  assumes "TrackingEnabled state"
  shows "frame_step config state frame
           = ProcessTracking (state\<lparr>FrameCount := FrameCount state + 1\<rparr>) frame config"
  using assms by (simp add: frame_step_def ProcessAutoTracking_def Let_def)

lemma drift_frame_FrameCount:
  "drift_frame config (state\<lparr>FrameCount := n\<rparr>) frame = drift_frame config state frame"
  by (simp add: drift_frame_def)

lemma frame_step_drift:
  assumes "TrackingEnabled state" and "drift_frame config state frame"
  shows "frame_step config state frame
           = (state\<lparr>FrameCount := FrameCount state + 1, TrackingFailureCount := 1\<rparr>,
              LastKnownRect state)"
  using assms
  by (simp add: frame_step_tracking ProcessTracking_drift drift_frame_FrameCount)

lemma run_frames_drift:
  assumes "TrackingEnabled state" and "drift_run config state frames" and "frames \<noteq> []"
  shows "run_frames config state frames
           = state\<lparr>FrameCount := FrameCount state + int (length frames),
                    TrackingFailureCount := 1\<rparr>"
  using assms
proof (induction frames arbitrary: state)
  case Nil
  then show ?case by simp
next
  case (Cons f fs)
  from Cons.prems have step: "frame_step config state f
           = (state\<lparr>FrameCount := FrameCount state + 1, TrackingFailureCount := 1\<rparr>,
              LastKnownRect state)"
    by (simp add: frame_step_drift)
  show ?case
  proof (cases "fs = []")
    case True
    with step show ?thesis by simp
  next
    case False
    from Cons.prems step
    have "drift_run config (state\<lparr>FrameCount := FrameCount state + 1, TrackingFailureCount := 1\<rparr>) fs"
      by simp
    with Cons.IH [of "state\<lparr>FrameCount := FrameCount state + 1, TrackingFailureCount := 1\<rparr>"]
      Cons.prems(1) False step
    show ?thesis by simp
  qed
qed

lemma drift_run_take: "drift_run config state frames \<Longrightarrow> drift_run config state (take n frames)"
proof (induction frames arbitrary: state n)
  case Nil
  then show ?case by simp
next
  case (Cons f fs)
  then show ?case by (cases n) simp_all
qed

lemma frame_step_success_keeps_tracking:
  assumes "TrackingEnabled state" and "snd (TrackerUpdate frame)"
  shows "TrackingEnabled (fst (frame_step config state frame))"
  using assms
  by (simp add: frame_step_tracking ProcessTracking_success_keeps_tracking)

lemma tracking_state_simps:
  "TrackingEnabled tracking_state" "\<not> AutoTrackingEnabled tracking_state"
  "\<not> ROISelectionMode tracking_state"
  "LastKnownRect tracking_state = Rect 100 100 150 150"
  "InitialROISize tracking_state = 50"
  "TrackingFailureCount tracking_state = 0"
  by (simp_all add: tracking_state_def)

lemma frame_640x480_simps:
  "TrackerUpdate (frame_640x480 u cs) = u" "Cols (frame_640x480 u cs) = 640"
  "Rows (frame_640x480 u cs) = 480" "TrackerInit (frame_640x480 u cs) r"
  "\<not> BackSubError (frame_640x480 u cs)" "Contours (frame_640x480 u cs) = cs"
  by (simp_all add: frame_640x480_def)

lemma suspicious_example:
  "suspicious_size_change (Rect 0 0 300 300) (Rect 100 100 150 150) (Fin 5)"
proof -
  have "quot (Dx (Rect 0 0 300 300) + Dy (Rect 0 0 300 300)) 2 = 300"
    "quot (Dx (Rect 100 100 150 150) + Dy (Rect 100 100 150 150)) 2 = 50"
    by (simp_all add: Rect_def Dx_def Dy_def quot_def)
  moreover have "float64_less (Fin 5) (Fin 6)"
    by (simp add: float64_less_def)
  ultimately show ?thesis
    by (simp add: suspicious_size_change_def Let_def size_ratio_6)
qed

lemma last_known_not_empty: "\<not> Empty (Rect 100 100 150 150)"
  by (simp add: Empty_def Rect_def)

section \<open>Facts about the contour loop\<close>

lemma largest_contour_loop_spec:
  "(largest_contour_loop cs minArea i la idx = idx
      \<and> (\<forall>c \<in> set cs. \<not> (la < ContourArea c \<and> minArea < ContourArea c)))
   \<or> (\<exists>k < length cs. largest_contour_loop cs minArea i la idx = i + int k
         \<and> la < ContourArea (cs ! k) \<and> minArea < ContourArea (cs ! k)
         \<and> (\<forall>j < length cs. ContourArea (cs ! j) \<le> ContourArea (cs ! k))
         \<and> (\<forall>j < k. ContourArea (cs ! j) < ContourArea (cs ! k)))"
proof (induction cs arbitrary: i la idx)
  case Nil
  then show ?case by simp
next
  case (Cons c cs)
  show ?case
  proof (cases "la < ContourArea c \<and> minArea < ContourArea c")
    case True
    then have step: "largest_contour_loop (c # cs) minArea i la idx
        = largest_contour_loop cs minArea (i + 1) (ContourArea c) i"
      by (simp add: Let_def)
    from Cons.IH [of "i + 1" "ContourArea c" i]
    show ?thesis
    proof (elim disjE conjE exE)
      assume r: "largest_contour_loop cs minArea (i + 1) (ContourArea c) i = i"
        and none: "\<forall>c' \<in> set cs. \<not> (ContourArea c < ContourArea c' \<and> minArea < ContourArea c')"
      have le: "\<forall>j < length (c # cs). ContourArea ((c # cs) ! j) \<le> ContourArea c"
      proof (intro allI impI)
        fix j assume "j < length (c # cs)"
        show "ContourArea ((c # cs) ! j) \<le> ContourArea c"
        proof (cases j)
          case 0
          then show ?thesis by simp
        next
          case (Suc j')
          with \<open>j < length (c # cs)\<close> have "cs ! j' \<in> set cs" by simp
          with none True Suc show ?thesis by fastforce
        qed
      qed
      have "0 < length (c # cs) \<and> largest_contour_loop (c # cs) minArea i la idx = i + int 0
         \<and> la < ContourArea ((c # cs) ! 0) \<and> minArea < ContourArea ((c # cs) ! 0)
         \<and> (\<forall>j < length (c # cs). ContourArea ((c # cs) ! j) \<le> ContourArea ((c # cs) ! 0))
         \<and> (\<forall>j < 0. ContourArea ((c # cs) ! j) < ContourArea ((c # cs) ! 0))"
        using True step r le by simp
      then show ?thesis by blast
    next
      fix k
      assume k: "k < length cs"
        and r: "largest_contour_loop cs minArea (i + 1) (ContourArea c) i = i + 1 + int k"
        and gt: "ContourArea c < ContourArea (cs ! k)" "minArea < ContourArea (cs ! k)"
        and le: "\<forall>j < length cs. ContourArea (cs ! j) \<le> ContourArea (cs ! k)"
        and lt: "\<forall>j < k. ContourArea (cs ! j) < ContourArea (cs ! k)"
      have le': "\<forall>j < length (c # cs). ContourArea ((c # cs) ! j) \<le> ContourArea (cs ! k)"
      proof (intro allI impI)
        fix j assume "j < length (c # cs)"
        then show "ContourArea ((c # cs) ! j) \<le> ContourArea (cs ! k)"
          using gt(1) le by (cases j) simp_all
      qed
      have lt': "\<forall>j < Suc k. ContourArea ((c # cs) ! j) < ContourArea (cs ! k)"
      proof (intro allI impI)
        fix j assume "j < Suc k"
        then show "ContourArea ((c # cs) ! j) < ContourArea (cs ! k)"
          using gt(1) lt by (cases j) simp_all
      qed
      have "Suc k < length (c # cs)
         \<and> largest_contour_loop (c # cs) minArea i la idx = i + int (Suc k)
         \<and> la < ContourArea ((c # cs) ! Suc k) \<and> minArea < ContourArea ((c # cs) ! Suc k)
         \<and> (\<forall>j < length (c # cs). ContourArea ((c # cs) ! j) \<le> ContourArea ((c # cs) ! Suc k))
         \<and> (\<forall>j < Suc k. ContourArea ((c # cs) ! j) < ContourArea ((c # cs) ! Suc k))"
        using k step r gt True le' lt' by simp
      then show ?thesis by blast
    qed
  next
    case False
    then have step: "largest_contour_loop (c # cs) minArea i la idx
        = largest_contour_loop cs minArea (i + 1) la idx"
      by (auto simp add: Let_def)
    from Cons.IH [of "i + 1" la idx]
    show ?thesis
    proof (elim disjE conjE exE)
      assume "largest_contour_loop cs minArea (i + 1) la idx = idx"
        and "\<forall>c' \<in> set cs. \<not> (la < ContourArea c' \<and> minArea < ContourArea c')"
      with False step show ?thesis by simp
    next
      fix k
      assume k: "k < length cs"
        and r: "largest_contour_loop cs minArea (i + 1) la idx = i + 1 + int k"
        and gt: "la < ContourArea (cs ! k)" "minArea < ContourArea (cs ! k)"
        and le: "\<forall>j < length cs. ContourArea (cs ! j) \<le> ContourArea (cs ! k)"
        and lt: "\<forall>j < k. ContourArea (cs ! j) < ContourArea (cs ! k)"
      from False gt have c_lt: "ContourArea c < ContourArea (cs ! k)"
        by auto
      have le': "\<forall>j < length (c # cs). ContourArea ((c # cs) ! j) \<le> ContourArea (cs ! k)"
      proof (intro allI impI)
        fix j assume "j < length (c # cs)"
        then show "ContourArea ((c # cs) ! j) \<le> ContourArea (cs ! k)"
          using c_lt le by (cases j) simp_all
      qed
      have lt': "\<forall>j < Suc k. ContourArea ((c # cs) ! j) < ContourArea (cs ! k)"
      proof (intro allI impI)
        fix j assume "j < Suc k"
        then show "ContourArea ((c # cs) ! j) < ContourArea (cs ! k)"
          using c_lt lt by (cases j) simp_all
      qed
      have "Suc k < length (c # cs)
         \<and> largest_contour_loop (c # cs) minArea i la idx = i + int (Suc k)
         \<and> la < ContourArea ((c # cs) ! Suc k) \<and> minArea < ContourArea ((c # cs) ! Suc k)
         \<and> (\<forall>j < length (c # cs). ContourArea ((c # cs) ! j) \<le> ContourArea ((c # cs) ! Suc k))
         \<and> (\<forall>j < Suc k. ContourArea ((c # cs) ! j) < ContourArea ((c # cs) ! Suc k))"
        using k step r gt le' lt' by simp
      then show ?thesis by blast
    qed
  qed
qed

lemma largest_contour_none:
  assumes "\<forall>c \<in> set contours. \<not> max minArea 0 < ContourArea c"
  shows "largest_contour contours minArea = - 1"
proof -
  from assms have "\<not> (\<exists>k < length contours. 0 < ContourArea (contours ! k)
      \<and> minArea < ContourArea (contours ! k))"
    by (auto simp add: max_less_iff_conj)
  with largest_contour_loop_spec [of contours minArea 0 0 "- 1"]
  show ?thesis
    unfolding largest_contour_def by blast
qed

lemma largest_contour_some:
  assumes "\<exists>c \<in> set contours. max minArea 0 < ContourArea c"
  shows "\<exists>k. largest_contour contours minArea = int k
           \<and> first_largest_above contours (max minArea 0) k"
proof -
  from assms have "\<not> (\<forall>c \<in> set contours. \<not> (0 < ContourArea c \<and> minArea < ContourArea c))"
    by (auto simp add: max_less_iff_conj)
  with largest_contour_loop_spec [of contours minArea 0 0 "- 1"]
  obtain k where k: "k < length contours"
    and r: "largest_contour contours minArea = int k"
    and gt: "0 < ContourArea (contours ! k)" "minArea < ContourArea (contours ! k)"
    and le: "\<forall>j < length contours. ContourArea (contours ! j) \<le> ContourArea (contours ! k)"
    and lt: "\<forall>j < k. ContourArea (contours ! j) < ContourArea (contours ! k)"
    unfolding largest_contour_def by auto
  from le have le': "\<forall>c \<in> set contours. ContourArea c \<le> ContourArea (contours ! k)"
    by (auto simp add: in_set_conv_nth)
  from lt k have lt': "\<forall>c \<in> set (take k contours). ContourArea c < ContourArea (contours ! k)"
    by (auto simp add: in_set_conv_nth)
  from k gt le' lt' have "first_largest_above contours (max minArea 0) k"
    by (simp add: first_largest_above_def)
  with r show ?thesis by blast
qed

lemma ProcessAutoTracking_gated:
  assumes "\<not> TrackingEnabled state" "AutoTrackingEnabled state" "\<not> ROISelectionMode state"
    and "StabilizationFrames config < FrameCount state" "\<not> BackSubError frame"
  shows "ProcessAutoTracking state frame config =
     (if 0 \<le> largest_contour (Contours frame) (MinContourArea config)
          \<and> TrackerInit frame (padded_roi (BoundingRect (Contours frame !
                nat (largest_contour (Contours frame) (MinContourArea config)))) frame)
      then state\<lparr>ROI := padded_roi (BoundingRect (Contours frame !
                nat (largest_contour (Contours frame) (MinContourArea config)))) frame,
                 TrackingEnabled := True, AutoTrackingEnabled := False,
                 InitialROISize :=
                   quot (Dx (padded_roi (BoundingRect (Contours frame !
                           nat (largest_contour (Contours frame) (MinContourArea config)))) frame)
                       + Dy (padded_roi (BoundingRect (Contours frame !
                           nat (largest_contour (Contours frame) (MinContourArea config)))) frame))
                     2\<rparr>
      else state)"
  using assms by (simp add: ProcessAutoTracking_def Let_def)

lemma padded_roi_coordinates:
  assumes "MinX b \<le> MaxX b" "MinY b \<le> MaxY b"
  shows "padded_roi b frame =
     \<lparr>MinX = max 0 (MinX b - 20), MinY = max 0 (MinY b - 20),
      MaxX = min (Cols frame) (MaxX b + 20), MaxY = min (Rows frame) (MaxY b + 20)\<rparr>"
  using assms by (simp add: padded_roi_def clip_to_frame_def Rect_def Let_def max_def min_def)

lemma searching_state_simps:
  "\<not> TrackingEnabled searching_state" "AutoTrackingEnabled searching_state"
  "\<not> ROISelectionMode searching_state" "FrameCount searching_state = 100"
  by (simp_all add: searching_state_def)

lemma largest_of_three: "largest_contour three_contours 500 = 1"
  by (simp add: largest_contour_def three_contours_def Let_def)

section \<open>Facts about the selection keys\<close>

lemma in_frame_selection_rect:
  "in_frame (selection_rect state) W H =
     (quot (ROIWidth state) 2 \<le> ROICenterX state \<and> quot (ROIHeight state) 2 \<le> ROICenterY state
      \<and> ROICenterX state + quot (ROIWidth state) 2 \<le> W
      \<and> ROICenterY state + quot (ROIHeight state) 2 \<le> H)"
  by (simp add: in_frame_def selection_rect_def)

lemma HandleROIKeys_nudge:
  "HandleROIKeys 0 state frame =
     (if \<not> ROISelectionMode state then state
      else state\<lparr>ROICenterY := max (ROICenterY state - 10) (quot (ROIHeight state) 2)\<rparr>)"
  "HandleROIKeys 1 state frame =
     (if \<not> ROISelectionMode state then state
      else state\<lparr>ROICenterY :=
        min (ROICenterY state + 10) (Rows frame - quot (ROIHeight state) 2)\<rparr>)"
  "HandleROIKeys 2 state frame =
     (if \<not> ROISelectionMode state then state
      else state\<lparr>ROICenterX := max (ROICenterX state - 10) (quot (ROIWidth state) 2)\<rparr>)"
  "HandleROIKeys 3 state frame =
     (if \<not> ROISelectionMode state then state
      else state\<lparr>ROICenterX :=
        min (ROICenterX state + 10) (Cols frame - quot (ROIWidth state) 2)\<rparr>)"
  by (simp_all add: HandleROIKeys_def Let_def max_def min_def)

lemma nudge_keeps_in_frame:
  assumes "in_frame (selection_rect state) (Cols frame) (Rows frame)"
    and "key \<in> {0, 1, 2, 3}"
  shows "in_frame (selection_rect (HandleROIKeys key state frame)) (Cols frame) (Rows frame)"
proof -
  from assms(2) consider "key = 0" | "key = 1" | "key = 2" | "key = 3" by auto
  then show ?thesis
  proof cases
    case 1
    with assms(1) show ?thesis
      by (auto simp add: in_frame_selection_rect HandleROIKeys_nudge(1) max_def min_def)
  next
    case 2
    with assms(1) show ?thesis
      by (auto simp add: in_frame_selection_rect HandleROIKeys_nudge(2) max_def min_def)
  next
    case 3
    with assms(1) show ?thesis
      by (auto simp add: in_frame_selection_rect HandleROIKeys_nudge(3) max_def min_def)
  next
    case 4
    with assms(1) show ?thesis
      by (auto simp add: in_frame_selection_rect HandleROIKeys_nudge(4) max_def min_def)
  qed
qed

lemma HandleROIKeys_grow:
  "HandleROIKeys 43 state frame =
     (if \<not> ROISelectionMode state then state
      else state\<lparr>ROIWidth := min (ROIWidth state + 20) (Cols frame),
                 ROIHeight := min (ROIHeight state + 20) (Rows frame)\<rparr>)"
  by (simp add: HandleROIKeys_def Let_def min_def)

lemma HandleMainKeys_s:
  "HandleMainKeys 115 state frame =
     (if \<not> ROISelectionMode state
      then (state\<lparr>AutoTrackingEnabled := False, TrackingEnabled := False,
                  ROISelectionMode := True,
                  ROICenterX := quot (Cols frame) 2,
                  ROICenterY := quot (Rows frame) 2\<rparr>, False)
      else (state, False))"
  by (simp add: HandleMainKeys_def)

lemma HandleROIKeys_s: "HandleROIKeys 115 state frame = state"
  by (simp add: HandleROIKeys_def)

lemma ProcessInput_s:
  "ProcessInput 115 state frame =
     (if \<not> ROISelectionMode state
      then (state\<lparr>AutoTrackingEnabled := False, TrackingEnabled := False,
                  ROISelectionMode := True,
                  ROICenterX := quot (Cols frame) 2,
                  ROICenterY := quot (Rows frame) 2\<rparr>, False)
      else (state, False))"
  by (simp add: ProcessInput_def HandleMainKeys_s HandleROIKeys_s)

lemma selecting_state_eq:
  "selecting_state = searching_state\<lparr>AutoTrackingEnabled := False, ROISelectionMode := True\<rparr>"
  by (simp add: selecting_state_def ProcessInput_s searching_state_def frame_640x480_def
      quot_def)

lemma left_nudge_free:
  assumes "ROISelectionMode state" and "quot (ROIWidth state) 2 \<le> ROICenterX state - 10"
  shows "HandleROIKeys 2 state frame = state\<lparr>ROICenterX := ROICenterX state - 10\<rparr>"
  using assms by (simp add: HandleROIKeys_nudge(3) max_def)

lemma left_nudges_free:
  assumes "ROISelectionMode state"
    and "quot (ROIWidth state) 2 \<le> ROICenterX state - 10 * int n"
  shows "roi_keys (replicate n 2) state frame
           = state\<lparr>ROICenterX := ROICenterX state - 10 * int n\<rparr>"
  using assms
proof (induction n arbitrary: state)
  case 0
  then show ?case by simp
next
  case (Suc n)
  from Suc.prems have step: "HandleROIKeys 2 state frame
      = state\<lparr>ROICenterX := ROICenterX state - 10\<rparr>"
    by (intro left_nudge_free) simp_all
  from Suc.prems
  have "roi_keys (replicate n 2) (state\<lparr>ROICenterX := ROICenterX state - 10\<rparr>) frame
      = state\<lparr>ROICenterX := ROICenterX state - 10,
               ROICenterX := ROICenterX state - 10 - 10 * int n\<rparr>"
    using Suc.IH [of "state\<lparr>ROICenterX := ROICenterX state - 10\<rparr>"] by simp
  with step show ?case by (simp add: algebra_simps)
qed

lemma selecting_state_simps:
  "ROISelectionMode selecting_state" "ROICenterX selecting_state = 320"
  "ROICenterY selecting_state = 240" "ROIWidth selecting_state = 100"
  "ROIHeight selecting_state = 100"
  by (simp_all add: selecting_state_eq searching_state_def)

lemma left_nudges:
  "roi_keys (replicate 27 2) selecting_state (frame_640x480 u cs)
     = selecting_state\<lparr>ROICenterX := 50\<rparr>"
  using left_nudges_free [of selecting_state 27 "frame_640x480 u cs"]
  by (simp add: selecting_state_simps quot_def)

lemma roi_keys_append:
  "roi_keys (ks @ ks') state frame = roi_keys ks' (roi_keys ks state frame) frame"
  by (induction ks arbitrary: state) simp_all

lemma ProcessInput_escape: "ProcessInput 27 state frame = HandleEscapeKey state"
  by (simp add: ProcessInput_def)

section \<open>The bounding-box constrainer\<close>

text \<open>
  Claim C3. For every rectangle, initial size, growth factor, minimum size and frame,
  the constrainer is to return a rectangle that lies inside the frame and whose width
  and height lie between \<open>minSize\<close> and the larger of \<open>minSize\<close> and
  \<open>initialSize * maxGrowth\<close>. The code states both aims in its comments (ensure
  minimum size; ensure the rectangle stays within image bounds) and misses both at
  this input: a frame of 640 by 480; a region of 700 by 10 reported at \<open>(-30, 100)\<close>;
  \<open>initialSize = 560\<close> (a target acquired on the whole frame), \<open>maxGrowth = 2\<close>,
  \<open>minSize = 41\<close>. The width 700 is under the cap 1120 and stays; the rectangle is
  moved right by 30, then left by 60, and ends at \<open>x = -60\<close>, outside the frame,
  because the code only moves the rectangle and a rectangle wider than the frame fits
  nowhere. The height is raised to 41 and rebuilt from the half height 20: it is 40,
  below \<open>minSize\<close>.
\<close>

theorem constrain_bounds_failing_input:
  "ConstrainBoundingBox (Rect (- 30) 100 670 110) 560 (Fin 2) 41 640 480
     = \<lparr>MinX = - 60, MinY = 85, MaxX = 640, MaxY = 125\<rparr>
   \<and> \<not> in_frame (ConstrainBoundingBox (Rect (- 30) 100 670 110) 560 (Fin 2) 41 640 480)
         640 480
   \<and> Dy (ConstrainBoundingBox (Rect (- 30) 100 670 110) 560 (Fin 2) 41 640 480) = 40
   \<and> \<not> size_bounds (ConstrainBoundingBox (Rect (- 30) 100 670 110) 560 (Fin 2) 41 640 480)
         560 (Fin 2) 41"
proof -
  have ev: "ConstrainBoundingBox (Rect (- 30) 100 670 110) 560 (Fin 2) 41 640 480
     = \<lparr>MinX = - 60, MinY = 85, MaxX = 640, MaxY = 125\<rparr>"
    by (simp add: ConstrainBoundingBox_def Let_def Rect_def Dx_def Dy_def clamp_size_def
      max_allowed_size_560 quot_def keep_in_bounds_def Add_def)
  show ?thesis
    unfolding ev by (simp add: in_frame_def size_bounds_def Dx_def Dy_def)
qed

text \<open>
  Claim C4. Constraining twice with the same parameters gives what constraining once
  gives, provided the rectangle handed to the second call (the result of the first)
  satisfies the size bounds.
\<close>

theorem constrain_idempotent:
  assumes "size_bounds (ConstrainBoundingBox rect initialSize maxGrowth minSize W H)
             initialSize maxGrowth minSize"
  shows "ConstrainBoundingBox (ConstrainBoundingBox rect initialSize maxGrowth minSize W H)
             initialSize maxGrowth minSize W H
         = ConstrainBoundingBox rect initialSize maxGrowth minSize W H"
proof -
  define r where "r = ConstrainBoundingBox rect initialSize maxGrowth minSize W H"
  obtain r0 where r0: "r = keep_in_bounds r0 W H"
    unfolding r_def by (simp add: ConstrainBoundingBox_def Let_def)
  have nn: "0 \<le> Dx r" "0 \<le> Dy r"
    unfolding r_def
    by (rule Dx_ConstrainBoundingBox_nonneg, rule Dy_ConstrainBoundingBox_nonneg)
  have ev: "even (Dx r)" "even (Dy r)"
    unfolding r_def by (simp_all add: Dx_ConstrainBoundingBox Dy_ConstrainBoundingBox)
  from assms have sb: "size_bounds r initialSize maxGrowth minSize"
    by (simp only: r_def)
  then have cw: "clamp_size (Dx r) (max_allowed_size initialSize maxGrowth) minSize = Dx r"
    and ch: "clamp_size (Dy r) (max_allowed_size initialSize maxGrowth) minSize = Dy r"
    by (simp_all add: size_bounds_def clamp_size_fixed)
  have "ConstrainBoundingBox r initialSize maxGrowth minSize W H = keep_in_bounds r W H"
    by (simp only: ConstrainBoundingBox_unfold [of r] cw ch Rect_rebuilt [OF nn ev])
  also have "\<dots> = r"
    unfolding r0 by (rule keep_in_bounds_idem)
  finally show ?thesis
    by (simp only: r_def)
qed

theorem constrain_idempotent_witness:
  "size_bounds (ConstrainBoundingBox (Rect 0 0 200 200) 50 (Fin 2) 40 640 480) 50 (Fin 2) 40
   \<and> ConstrainBoundingBox (ConstrainBoundingBox (Rect 0 0 200 200) 50 (Fin 2) 40 640 480)
         50 (Fin 2) 40 640 480
       = Rect 50 50 150 150"
proof -
  have ev: "ConstrainBoundingBox (Rect 0 0 200 200) 50 (Fin 2) 40 640 480
      = Rect 50 50 150 150"
    by (simp add: ConstrainBoundingBox_def Let_def Rect_def Dx_def Dy_def clamp_size_def
      max_allowed_size_50 quot_def keep_in_bounds_def Add_def)
  have sb: "size_bounds (ConstrainBoundingBox (Rect 0 0 200 200) 50 (Fin 2) 40 640 480)
      50 (Fin 2) 40"
    unfolding ev by (simp add: size_bounds_def max_allowed_size_50 Rect_def Dx_def Dy_def)
  have "ConstrainBoundingBox (ConstrainBoundingBox (Rect 0 0 200 200) 50 (Fin 2) 40 640 480)
          50 (Fin 2) 40 640 480
       = ConstrainBoundingBox (Rect 0 0 200 200) 50 (Fin 2) 40 640 480"
    using sb by (rule constrain_idempotent)
  also note ev
  finally show ?thesis
    using sb by simp
qed

text \<open>
  Claim C10, as amended. For every input the rectangle \<open>ConstrainBoundingBox\<close>
  returns has an even width and an even height: each is twice the integer half of the
  clamped size (\<open>newWidth\<close>, \<open>newHeight\<close>, clamped with the cap
  \<open>maxAllowedSize\<close> the code computes), in absolute value, since
  \<open>image.Rect\<close> puts the corners in order. The claim gives
  \<open>2 * floor(clampedSize / 2)\<close> for every input; that is the dimension whenever the
  clamped size is not negative (\<open>div\<close> is the floor of the quotient), and it is
  then one pixel less than an odd clamped size: a dimension raised to an odd
  \<open>minSize \<ge> 0\<close> comes out as \<open>minSize - 1\<close>, and one cut to an odd
  \<open>maxAllowedSize \<ge> 0\<close> as \<open>maxAllowedSize - 1\<close>.
\<close>

theorem constrain_even_dimensions:
  fixes rect :: Rectangle and initialSize minSize W H :: int and maxGrowth :: float64
  defines "r \<equiv> ConstrainBoundingBox rect initialSize maxGrowth minSize W H"
    and "cw \<equiv> newWidth rect initialSize maxGrowth minSize"
    and "ch \<equiv> newHeight rect initialSize maxGrowth minSize"
    and "M \<equiv> max_allowed_size initialSize maxGrowth"
  shows "even (Dx r) \<and> even (Dy r)
     \<and> Dx r = 2 * \<bar>quot cw 2\<bar> \<and> Dy r = 2 * \<bar>quot ch 2\<bar>
     \<and> (0 \<le> cw \<longrightarrow> Dx r = 2 * (cw div 2)) \<and> (0 \<le> ch \<longrightarrow> Dy r = 2 * (ch div 2))
     \<and> (0 \<le> cw \<and> odd cw \<longrightarrow> Dx r = cw - 1) \<and> (0 \<le> ch \<and> odd ch \<longrightarrow> Dy r = ch - 1)
     \<and> (0 \<le> minSize \<and> odd minSize \<and> Dx rect \<le> minSize \<longrightarrow> Dx r = minSize - 1)
     \<and> (0 \<le> minSize \<and> odd minSize \<and> Dy rect \<le> minSize \<longrightarrow> Dy r = minSize - 1)
     \<and> (0 \<le> M \<and> odd M \<and> minSize \<le> M \<and> M \<le> Dx rect \<longrightarrow> Dx r = M - 1)
     \<and> (0 \<le> M \<and> odd M \<and> minSize \<le> M \<and> M \<le> Dy rect \<longrightarrow> Dy r = M - 1)"
proof -
  have w: "Dx r = 2 * \<bar>quot (clamp_size (Dx rect) M minSize) 2\<bar>"
    unfolding r_def M_def by (rule Dx_ConstrainBoundingBox)
  have h: "Dy r = 2 * \<bar>quot (clamp_size (Dy rect) M minSize) 2\<bar>"
    unfolding r_def M_def by (rule Dy_ConstrainBoundingBox)
  have cw: "cw = clamp_size (Dx rect) M minSize"
    by (simp add: cw_def M_def newWidth_def)
  have ch: "ch = clamp_size (Dy rect) M minSize"
    by (simp add: ch_def M_def newHeight_def)
  show ?thesis
    unfolding w h cw ch
    using rebuilt_dimension [where c = "Dx rect" and M = M and m = minSize]
      rebuilt_dimension [where c = "Dy rect" and M = M and m = minSize]
    by blast
qed

theorem constrain_even_dimensions_witness:
  "Dx (ConstrainBoundingBox (Rect 0 0 10 200) 101 (Fin 1) 41 640 480) = 40
   \<and> Dy (ConstrainBoundingBox (Rect 0 0 10 200) 101 (Fin 1) 41 640 480) = 100"
proof -
  have d: "Dx (Rect 0 0 10 200) = 10" "Dy (Rect 0 0 10 200) = 200"
    by (simp_all add: Rect_def Dx_def Dy_def)
  show ?thesis
    using constrain_even_dimensions [where rect = "Rect 0 0 10 200" and initialSize = 101
        and maxGrowth = "Fin 1" and minSize = 41 and W = 640 and H = 480]
    by (simp add: max_allowed_size_101 d)
qed

text \<open>
  Claim C10 as stated fails where the clamped size is negative, which a negative
  \<open>minSize\<close> with a negative growth factor allows: \<open>initialSize = 1\<close>,
  \<open>maxGrowth = -3\<close>, \<open>minSize = -5\<close> and a region of 10 by 10 give the cap
  \<open>int(1.0 * -3.0) = -3\<close> and the clamped width \<open>-3\<close>, whose half in Go is
  \<open>-1\<close>; \<open>image.Rect\<close> swaps the corners and the width is 2, while
  \<open>2 * floor(-3 / 2)\<close> is \<open>-4\<close>.
\<close>

theorem constrain_even_dimensions_counterexample:
  "ConstrainBoundingBox (Rect 0 0 10 10) 1 (Fin (- 3)) (- 5) 640 480
     = \<lparr>MinX = 4, MinY = 4, MaxX = 6, MaxY = 6\<rparr>
   \<and> newWidth (Rect 0 0 10 10) 1 (Fin (- 3)) (- 5) = - 3
   \<and> Dx (ConstrainBoundingBox (Rect 0 0 10 10) 1 (Fin (- 3)) (- 5) 640 480) = 2
   \<and> 2 * (newWidth (Rect 0 0 10 10) 1 (Fin (- 3)) (- 5) div 2) = - 4"
proof -
  have ev: "ConstrainBoundingBox (Rect 0 0 10 10) 1 (Fin (- 3)) (- 5) 640 480
     = \<lparr>MinX = 4, MinY = 4, MaxX = 6, MaxY = 6\<rparr>"
    by (simp add: ConstrainBoundingBox_def Let_def Rect_def Dx_def Dy_def clamp_size_def
      max_allowed_size_negative quot_def keep_in_bounds_def Add_def)
  have nw: "newWidth (Rect 0 0 10 10) 1 (Fin (- 3)) (- 5) = - 3"
    by (simp add: newWidth_def Rect_def Dx_def clamp_size_def max_allowed_size_negative)
  show ?thesis
    unfolding ev nw by (simp add: Dx_def)
qed

section \<open>The tracking state machine\<close>

text \<open>
  The modes of the specification are read off the flags: the session is in
  ActiveTracking when \<open>TrackingEnabled\<close> is set, in AutoSearching when
  \<open>AutoTrackingEnabled\<close> is set and \<open>TrackingEnabled\<close> is not, idle when neither
  is; \<open>ROISelectionMode\<close> says that a manual selection is in progress.
  \<open>lastKnownRegion\<close> is \<open>LastKnownRect\<close>, \<open>consecutiveFailures\<close> is
  \<open>TrackingFailureCount\<close>.
\<close>



text \<open>
  Claim C2. In a tracking session, when the tracker's update fails and the incremented
  failure counter reaches \<open>MaxTrackingFailures\<close>, tracking is switched off and the
  counter is reset to 0. With no manual selection in progress auto-search is switched
  on (AutoSearching). With one in progress the auto-search flag is left as it was,
  which for a session that was tracking and not searching is off (Idle). The rectangle
  returned is empty.
\<close>

theorem give_up_after_max_failures:
  assumes "TrackingEnabled state"
    and "\<not> snd (TrackerUpdate frame)"
    and "MaxTrackingFailures config \<le> TrackingFailureCount state + 1"
  shows "\<not> TrackingEnabled (fst (ProcessTracking state frame config))
     \<and> TrackingFailureCount (fst (ProcessTracking state frame config)) = 0
     \<and> (\<not> ROISelectionMode state
          \<longrightarrow> AutoTrackingEnabled (fst (ProcessTracking state frame config)))
     \<and> (ROISelectionMode state
          \<longrightarrow> AutoTrackingEnabled (fst (ProcessTracking state frame config))
                = AutoTrackingEnabled state
              \<and> ROISelectionMode (fst (ProcessTracking state frame config)))
     \<and> (ROISelectionMode state \<and> \<not> AutoTrackingEnabled state
          \<longrightarrow> \<not> TrackingEnabled (fst (ProcessTracking state frame config))
              \<and> \<not> AutoTrackingEnabled (fst (ProcessTracking state frame config)))
     \<and> snd (ProcessTracking state frame config) = ZR"
  by (simp add: ProcessTracking_give_up [OF assms])

theorem give_up_after_max_failures_witness:
  "\<not> TrackingEnabled (fst (ProcessTracking (tracking_state\<lparr>TrackingFailureCount := 11\<rparr>)
          (frame_640x480 (ZR, False) []) DefaultTrackingConfig))
   \<and> AutoTrackingEnabled (fst (ProcessTracking (tracking_state\<lparr>TrackingFailureCount := 11\<rparr>)
          (frame_640x480 (ZR, False) []) DefaultTrackingConfig))
   \<and> TrackingFailureCount (fst (ProcessTracking (tracking_state\<lparr>TrackingFailureCount := 11\<rparr>)
          (frame_640x480 (ZR, False) []) DefaultTrackingConfig)) = 0
   \<and> \<not> TrackingEnabled (fst (ProcessTracking
          (tracking_state\<lparr>TrackingFailureCount := 11, ROISelectionMode := True\<rparr>)
          (frame_640x480 (ZR, False) []) DefaultTrackingConfig))
   \<and> \<not> AutoTrackingEnabled (fst (ProcessTracking
          (tracking_state\<lparr>TrackingFailureCount := 11, ROISelectionMode := True\<rparr>)
          (frame_640x480 (ZR, False) []) DefaultTrackingConfig))"
proof -
  have m: "MaxTrackingFailures DefaultTrackingConfig = 12"
    by (simp add: DefaultTrackingConfig_def)
  show ?thesis
    using give_up_after_max_failures [of "tracking_state\<lparr>TrackingFailureCount := 11\<rparr>"
        "frame_640x480 (ZR, False) []" DefaultTrackingConfig]
      give_up_after_max_failures
        [of "tracking_state\<lparr>TrackingFailureCount := 11, ROISelectionMode := True\<rparr>"
        "frame_640x480 (ZR, False) []" DefaultTrackingConfig]
    by (simp add: tracking_state_simps frame_640x480_simps m)
qed

text \<open>
  Claim C7, as amended. The claim says that the give-up transition clears the last
  known region. No statement of \<open>ProcessTracking\<close> does so, nor any other function
  of the program: in the give-up transition \<open>LastKnownRect\<close> keeps its value, and
  only the rectangle returned for that frame is empty.
\<close>

theorem give_up_keeps_last_known:
  assumes "TrackingEnabled state"
    and "\<not> snd (TrackerUpdate frame)"
    and "MaxTrackingFailures config \<le> TrackingFailureCount state + 1"
  shows "LastKnownRect (fst (ProcessTracking state frame config)) = LastKnownRect state
     \<and> snd (ProcessTracking state frame config) = ZR"
  by (simp add: ProcessTracking_give_up [OF assms])

theorem give_up_keeps_last_known_witness:
  "LastKnownRect (fst (ProcessTracking (tracking_state\<lparr>TrackingFailureCount := 11\<rparr>)
          (frame_640x480 (ZR, False) []) DefaultTrackingConfig)) = Rect 100 100 150 150
   \<and> snd (ProcessTracking (tracking_state\<lparr>TrackingFailureCount := 11\<rparr>)
          (frame_640x480 (ZR, False) []) DefaultTrackingConfig) = ZR"
proof -
  have m: "MaxTrackingFailures DefaultTrackingConfig = 12"
    by (simp add: DefaultTrackingConfig_def)
  show ?thesis
    using give_up_keeps_last_known [of "tracking_state\<lparr>TrackingFailureCount := 11\<rparr>"
        "frame_640x480 (ZR, False) []" DefaultTrackingConfig]
    by (simp add: tracking_state_simps frame_640x480_simps m)
qed

text \<open>
  Claim C7 as stated fails: a session tracking with the last known region
  \<open>(100,100)-(150,150)\<close> and 11 failures counted meets a twelfth failure. It leaves
  tracking for auto-search, and its last known region is still
  \<open>(100,100)-(150,150)\<close>, not empty.
\<close>

theorem last_known_cleared_counterexample:
  "TrackingEnabled (tracking_state\<lparr>TrackingFailureCount := 11\<rparr>)
   \<and> \<not> Empty (LastKnownRect (tracking_state\<lparr>TrackingFailureCount := 11\<rparr>))
   \<and> \<not> TrackingEnabled (fst (ProcessTracking (tracking_state\<lparr>TrackingFailureCount := 11\<rparr>)
          (frame_640x480 (ZR, False) []) DefaultTrackingConfig))
   \<and> AutoTrackingEnabled (fst (ProcessTracking (tracking_state\<lparr>TrackingFailureCount := 11\<rparr>)
          (frame_640x480 (ZR, False) []) DefaultTrackingConfig))
   \<and> LastKnownRect (fst (ProcessTracking (tracking_state\<lparr>TrackingFailureCount := 11\<rparr>)
          (frame_640x480 (ZR, False) []) DefaultTrackingConfig))
       = \<lparr>MinX = 100, MinY = 100, MaxX = 150, MaxY = 150\<rparr>
   \<and> \<not> Empty (LastKnownRect (fst (ProcessTracking (tracking_state\<lparr>TrackingFailureCount := 11\<rparr>)
          (frame_640x480 (ZR, False) []) DefaultTrackingConfig)))"
  by (simp add: ProcessTracking_def Let_def tracking_state_def frame_640x480_def
      DefaultTrackingConfig_def Rect_def Empty_def)

text \<open>
  Claim C9, as amended. The claim concludes that suspected drift can never bring the
  counter to \<open>maxTrackingFailures\<close>; with a threshold of 1 a single drift frame does,
  and still nothing happens. What the code does: in a tracking session, over a run of
  consecutive frames on each of which the update succeeds and the drift test fires,
  the failure counter is exactly 1 after each frame and the session keeps tracking,
  whatever \<open>MaxTrackingFailures\<close> is, since the give-up test is not on this path; the
  counter is below \<open>MaxTrackingFailures\<close> whenever that is above 1. A frame after
  which a tracking session no longer tracks is a frame on which the update failed.
\<close>

theorem drift_never_gives_up:
  assumes "TrackingEnabled state"
    and "drift_run config state frames"
    and "0 < n" and "n \<le> length frames"
  shows "TrackingFailureCount (run_frames config state (take n frames)) = 1
     \<and> TrackingEnabled (run_frames config state (take n frames))
     \<and> AutoTrackingEnabled (run_frames config state (take n frames)) = AutoTrackingEnabled state
     \<and> LastKnownRect (run_frames config state (take n frames)) = LastKnownRect state
     \<and> (1 < MaxTrackingFailures config
          \<longrightarrow> TrackingFailureCount (run_frames config state (take n frames))
                < MaxTrackingFailures config)
     \<and> (\<forall>s f. TrackingEnabled s \<and> \<not> TrackingEnabled (fst (frame_step config s f))
            \<longrightarrow> \<not> snd (TrackerUpdate f))"
proof -
  from assms(2) have run: "drift_run config state (take n frames)"
    by (rule drift_run_take)
  from assms(3,4) have ne: "take n frames \<noteq> []"
    by auto
  have eq: "run_frames config state (take n frames)
      = state\<lparr>FrameCount := FrameCount state + int (length (take n frames)),
               TrackingFailureCount := 1\<rparr>"
    using assms(1) run ne by (rule run_frames_drift)
  have only: "\<forall>s f. TrackingEnabled s \<and> \<not> TrackingEnabled (fst (frame_step config s f))
            \<longrightarrow> \<not> snd (TrackerUpdate f)"
    using frame_step_success_keeps_tracking by blast
  from assms(1) only show ?thesis
    unfolding eq by simp
qed

text \<open>
  Three drift frames in a row with the threshold lowered to 2: the counter is 1 and the
  session still tracks.
\<close>

theorem drift_never_gives_up_witness:
  "TrackingFailureCount (run_frames (DefaultTrackingConfig\<lparr>MaxTrackingFailures := 2\<rparr>)
       tracking_state
       (take 3 [frame_640x480 (Rect 0 0 300 300, True) [],
                frame_640x480 (Rect 0 0 300 300, True) [],
                frame_640x480 (Rect 0 0 300 300, True) []])) = 1
   \<and> TrackingEnabled (run_frames (DefaultTrackingConfig\<lparr>MaxTrackingFailures := 2\<rparr>)
       tracking_state
       (take 3 [frame_640x480 (Rect 0 0 300 300, True) [],
                frame_640x480 (Rect 0 0 300 300, True) [],
                frame_640x480 (Rect 0 0 300 300, True) []]))"
proof -
  let ?c = "DefaultTrackingConfig\<lparr>MaxTrackingFailures := 2\<rparr>"
  let ?f = "frame_640x480 (Rect 0 0 300 300, True) []"
  have thr: "SizeChangeThreshold ?c = Fin 5"
    by (simp add: DefaultTrackingConfig_def)
  have d: "\<And>s. LastKnownRect s = Rect 100 100 150 150 \<Longrightarrow> drift_frame ?c s ?f"
    by (simp add: drift_frame_def frame_640x480_simps thr suspicious_example last_known_not_empty)
  have st: "\<And>s. TrackingEnabled s \<Longrightarrow> LastKnownRect s = Rect 100 100 150 150 \<Longrightarrow>
     frame_step ?c s ?f = (s\<lparr>FrameCount := FrameCount s + 1, TrackingFailureCount := 1\<rparr>,
              LastKnownRect s)"
    by (rule frame_step_drift) (simp_all add: d)
  have run: "drift_run ?c tracking_state [?f, ?f, ?f]"
    by (simp add: d st tracking_state_simps)
  have "(0::nat) < 3" "3 \<le> length [?f, ?f, ?f]" by simp_all
  from drift_never_gives_up [OF tracking_state_simps(1) run this]
  show ?thesis by simp
qed

text \<open>
  Claim C9 as stated fails for \<open>MaxTrackingFailures = 1\<close>: after one drift frame the
  counter is 1, which is the threshold, and the session still tracks.
\<close>

theorem drift_reaches_threshold_counterexample:
  "drift_run (DefaultTrackingConfig\<lparr>MaxTrackingFailures := 1\<rparr>) tracking_state
      [frame_640x480 (Rect 0 0 300 300, True) []]
   \<and> TrackingFailureCount (run_frames (DefaultTrackingConfig\<lparr>MaxTrackingFailures := 1\<rparr>)
        tracking_state [frame_640x480 (Rect 0 0 300 300, True) []])
       = MaxTrackingFailures (DefaultTrackingConfig\<lparr>MaxTrackingFailures := 1\<rparr>)
   \<and> TrackingEnabled (run_frames (DefaultTrackingConfig\<lparr>MaxTrackingFailures := 1\<rparr>)
        tracking_state [frame_640x480 (Rect 0 0 300 300, True) []])"
proof -
  let ?c = "DefaultTrackingConfig\<lparr>MaxTrackingFailures := 1\<rparr>"
  let ?f = "frame_640x480 (Rect 0 0 300 300, True) []"
  have thr: "SizeChangeThreshold ?c = Fin 5"
    by (simp add: DefaultTrackingConfig_def)
  have d: "drift_frame ?c tracking_state ?f"
    by (simp add: drift_frame_def frame_640x480_simps thr suspicious_example
        last_known_not_empty tracking_state_simps)
  have st: "frame_step ?c tracking_state ?f
      = (tracking_state\<lparr>FrameCount := FrameCount tracking_state + 1,
                         TrackingFailureCount := 1\<rparr>, LastKnownRect tracking_state)"
    using tracking_state_simps(1) d by (rule frame_step_drift)
  show ?thesis
    by (simp add: d st tracking_state_simps)
qed

section \<open>The auto-detector\<close>

text \<open>
  Claim C5, as amended. The claim lets the detector choose among the contours whose
  area is above \<open>minArea\<close>, for every \<open>minArea\<close>. The loop compares each area with
  \<open>largestArea\<close> as well, which starts at 0, so a contour is a candidate only if its
  area is above both \<open>minArea\<close> and 0. What the code does, for every list of contours
  and every \<open>minArea\<close>: if no contour has an area above \<open>max(minArea, 0)\<close> none is
  selected; otherwise the contour selected has an area above \<open>max(minArea, 0)\<close>, no
  contour has a larger area, and every contour before it has a strictly smaller one
  (the first wins a tie). When the detector runs (no tracking, auto-tracking enabled,
  no selection in progress, warm-up over, mask computed) and the tracker accepts the
  region, the session tracks the selected contour's bounding rectangle widened by 20
  pixels on every side and cut at the edges of the frame.
\<close>

theorem auto_detect_selects_largest:
  "((\<forall>c \<in> set contours. \<not> max minArea 0 < ContourArea c)
      \<longrightarrow> largest_contour contours minArea = - 1)
   \<and> ((\<exists>c \<in> set contours. max minArea 0 < ContourArea c)
      \<longrightarrow> (\<exists>k. largest_contour contours minArea = int k
                \<and> first_largest_above contours (max minArea 0) k))
   \<and> (\<not> TrackingEnabled state \<and> AutoTrackingEnabled state \<and> \<not> ROISelectionMode state
        \<and> StabilizationFrames config < FrameCount state \<and> \<not> BackSubError frame
        \<and> largest_contour (Contours frame) (MinContourArea config) = int k
        \<and> TrackerInit frame (padded_roi (BoundingRect (Contours frame ! k)) frame)
      \<longrightarrow> ProcessAutoTracking state frame config
            = state\<lparr>ROI := padded_roi (BoundingRect (Contours frame ! k)) frame,
                     TrackingEnabled := True, AutoTrackingEnabled := False,
                     InitialROISize :=
                       quot (Dx (padded_roi (BoundingRect (Contours frame ! k)) frame)
                           + Dy (padded_roi (BoundingRect (Contours frame ! k)) frame)) 2\<rparr>)
   \<and> (MinX b \<le> MaxX b \<and> MinY b \<le> MaxY b
      \<longrightarrow> padded_roi b frame =
            \<lparr>MinX = max 0 (MinX b - 20), MinY = max 0 (MinY b - 20),
             MaxX = min (Cols frame) (MaxX b + 20), MaxY = min (Rows frame) (MaxY b + 20)\<rparr>)"
proof (intro conjI impI)
  assume "\<forall>c \<in> set contours. \<not> max minArea 0 < ContourArea c"
  then show "largest_contour contours minArea = - 1"
    by (rule largest_contour_none)
next
  assume "\<exists>c \<in> set contours. max minArea 0 < ContourArea c"
  then show "\<exists>k. largest_contour contours minArea = int k
                \<and> first_largest_above contours (max minArea 0) k"
    by (rule largest_contour_some)
next
  assume a: "\<not> TrackingEnabled state \<and> AutoTrackingEnabled state \<and> \<not> ROISelectionMode state
        \<and> StabilizationFrames config < FrameCount state \<and> \<not> BackSubError frame
        \<and> largest_contour (Contours frame) (MinContourArea config) = int k
        \<and> TrackerInit frame (padded_roi (BoundingRect (Contours frame ! k)) frame)"
  then have "ProcessAutoTracking state frame config =
     (if 0 \<le> largest_contour (Contours frame) (MinContourArea config)
          \<and> TrackerInit frame (padded_roi (BoundingRect (Contours frame !
                nat (largest_contour (Contours frame) (MinContourArea config)))) frame)
      then state\<lparr>ROI := padded_roi (BoundingRect (Contours frame !
                nat (largest_contour (Contours frame) (MinContourArea config)))) frame,
                 TrackingEnabled := True, AutoTrackingEnabled := False,
                 InitialROISize :=
                   quot (Dx (padded_roi (BoundingRect (Contours frame !
                           nat (largest_contour (Contours frame) (MinContourArea config)))) frame)
                       + Dy (padded_roi (BoundingRect (Contours frame !
                           nat (largest_contour (Contours frame) (MinContourArea config)))) frame))
                     2\<rparr>
      else state)"
    by (intro ProcessAutoTracking_gated) simp_all
  with a show "ProcessAutoTracking state frame config
            = state\<lparr>ROI := padded_roi (BoundingRect (Contours frame ! k)) frame,
                     TrackingEnabled := True, AutoTrackingEnabled := False,
                     InitialROISize :=
                       quot (Dx (padded_roi (BoundingRect (Contours frame ! k)) frame)
                           + Dy (padded_roi (BoundingRect (Contours frame ! k)) frame)) 2\<rparr>"
    by simp
next
  assume "MinX b \<le> MaxX b \<and> MinY b \<le> MaxY b"
  then show "padded_roi b frame =
            \<lparr>MinX = max 0 (MinX b - 20), MinY = max 0 (MinY b - 20),
             MaxX = min (Cols frame) (MaxX b + 20), MaxY = min (Rows frame) (MaxY b + 20)\<rparr>"
    by (simp add: padded_roi_coordinates)
qed

text \<open>
  The example of the specification: contours of areas 100, 600 and 550 with
  \<open>minArea = 500\<close>. The contour of area 600 (index 1) is selected; its bounding
  rectangle \<open>(5,100)-(35,120)\<close> becomes the region \<open>(0,80)-(55,140)\<close>.
\<close>

theorem auto_detect_selects_largest_witness:
  "largest_contour three_contours 500 = int 1
   \<and> first_largest_above three_contours (max 500 0) 1
   \<and> ContourArea (three_contours ! 1) = 600
   \<and> ROI (ProcessAutoTracking searching_state (frame_640x480 (ZR, False) three_contours)
            DefaultTrackingConfig)
       = \<lparr>MinX = 0, MinY = 80, MaxX = 55, MaxY = 140\<rparr>
   \<and> TrackingEnabled (ProcessAutoTracking searching_state
            (frame_640x480 (ZR, False) three_contours) DefaultTrackingConfig)"
proof -
  have c: "MinContourArea DefaultTrackingConfig = 500" "StabilizationFrames DefaultTrackingConfig = 30"
    by (simp_all add: DefaultTrackingConfig_def)
  have n: "three_contours ! 1 = \<lparr>ContourArea = 600, BoundingRect = Rect 5 100 35 120\<rparr>"
    "three_contours ! Suc 0 = \<lparr>ContourArea = 600, BoundingRect = Rect 5 100 35 120\<rparr>"
    by (simp_all add: three_contours_def)
  have ex: "\<exists>c \<in> set three_contours. max 500 0 < ContourArea c"
    by (simp add: three_contours_def)
  have wf: "MinX (Rect 5 100 35 120) \<le> MaxX (Rect 5 100 35 120)"
    "MinY (Rect 5 100 35 120) \<le> MaxY (Rect 5 100 35 120)"
    "MinX (Rect 5 100 35 120) = 5" "MinY (Rect 5 100 35 120) = 100"
    "MaxX (Rect 5 100 35 120) = 35" "MaxY (Rect 5 100 35 120) = 120"
    by (simp_all add: Rect_def)
  have fl: "first_largest_above three_contours (max 500 0) k \<Longrightarrow> k = 1" for k
    by (auto simp add: first_largest_above_def three_contours_def less_Suc_eq numeral_3_eq_3)
  show ?thesis
    using auto_detect_selects_largest [where contours = three_contours and minArea = 500
        and state = searching_state and config = DefaultTrackingConfig
        and frame = "frame_640x480 (ZR, False) three_contours" and k = 1
        and b = "Rect 5 100 35 120"]
    by (auto simp add: ex c n wf largest_of_three searching_state_simps frame_640x480_simps
        dest: fl)
qed

text \<open>
  Claim C5 as stated fails for a negative threshold: with \<open>minArea = -1\<close> and a
  single contour of area 0 (a one-point contour), the contour's area is above
  \<open>minArea\<close>, yet the loop selects nothing and the session is left as it was.
\<close>

theorem auto_detect_counterexample:
  "- 1 < ContourArea \<lparr>ContourArea = 0, BoundingRect = Rect 10 10 11 11\<rparr>
   \<and> largest_contour [\<lparr>ContourArea = 0, BoundingRect = Rect 10 10 11 11\<rparr>] (- 1) = - 1
   \<and> ProcessAutoTracking searching_state
        (frame_640x480 (ZR, False) [\<lparr>ContourArea = 0, BoundingRect = Rect 10 10 11 11\<rparr>])
        (DefaultTrackingConfig\<lparr>MinContourArea := - 1\<rparr>)
      = searching_state"
  by (simp add: ProcessAutoTracking_def largest_contour_def Let_def searching_state_def
      frame_640x480_def DefaultTrackingConfig_def)

section \<open>The selection controller\<close>

text \<open>
  Claim C6, as amended. The claim holds the selection rectangle inside the frame after
  every nudge whatever the starting position. Each nudge clamps the centre only at the
  edge it moves towards, and only on its own axis, so a rectangle that starts outside
  the frame can stay outside. What the code guarantees: if the selection rectangle
  (centre plus and minus the half dimensions) lies inside the frame, it lies inside
  the frame after every sequence of nudges (keys 0 to 3: up, down, left, right).
\<close>

theorem nudges_keep_selection_in_frame:
  assumes "in_frame (selection_rect state) (Cols frame) (Rows frame)"
    and "set keys \<subseteq> {0, 1, 2, 3}"
  shows "in_frame (selection_rect (roi_keys keys state frame)) (Cols frame) (Rows frame)"
  using assms
proof (induction keys arbitrary: state)
  case Nil
  then show ?case by simp
next
  case (Cons key keys)
  from Cons.prems have "key \<in> {0, 1, 2, 3}" by simp
  with Cons.prems(1)
  have "in_frame (selection_rect (HandleROIKeys key state frame)) (Cols frame) (Rows frame)"
    by (rule nudge_keeps_in_frame)
  moreover from Cons.prems have "set keys \<subseteq> {0, 1, 2, 3}" by simp
  ultimately show ?case
    using Cons.IH by simp
qed

theorem nudges_keep_selection_in_frame_witness:
  "in_frame (selection_rect selecting_state) 640 480
   \<and> in_frame (selection_rect (roi_keys [2, 0, 0, 3, 1] selecting_state
        (frame_640x480 (ZR, False) []))) 640 480"
proof -
  have a: "in_frame (selection_rect selecting_state) (Cols (frame_640x480 (ZR, False) []))
      (Rows (frame_640x480 (ZR, False) []))"
    by (simp add: in_frame_selection_rect selecting_state_simps frame_640x480_simps quot_def)
  have b: "set [2, 0, 0, 3, 1] \<subseteq> {0, 1, 2, 3::int}"
    by simp
  from nudges_keep_selection_in_frame [OF a b] a show ?thesis
    by (simp add: frame_640x480_simps)
qed

text \<open>
  Claim C6 as stated fails on a state the keys reach. On a frame of 640 by 480 the
  selection starts at the centre \<open>(320, 240)\<close> with size 100 by 100. Twenty-seven
  nudges to the left bring the centre to \<open>x = 50\<close>, against the left edge; the key
  \<open>+\<close> grows the selection to 120 by 120 and leaves the centre where it is, so the
  rectangle starts at \<open>x = -10\<close>. A nudge up moves the centre to \<open>y = 230\<close> and
  does not look at \<open>x\<close>: after the nudge the rectangle is still outside the frame.
\<close>

theorem nudge_counterexample:
  "selection_rect (roi_keys (replicate 27 2 @ [43]) selecting_state (frame_640x480 (ZR, False) []))
     = \<lparr>MinX = - 10, MinY = 180, MaxX = 110, MaxY = 300\<rparr>
   \<and> selection_rect (roi_keys [0]
         (roi_keys (replicate 27 2 @ [43]) selecting_state (frame_640x480 (ZR, False) []))
         (frame_640x480 (ZR, False) []))
     = \<lparr>MinX = - 10, MinY = 170, MaxX = 110, MaxY = 290\<rparr>
   \<and> \<not> in_frame (selection_rect (roi_keys [0]
         (roi_keys (replicate 27 2 @ [43]) selecting_state (frame_640x480 (ZR, False) []))
         (frame_640x480 (ZR, False) []))) 640 480"
proof -
  have s: "roi_keys (replicate 27 2 @ [43]) selecting_state (frame_640x480 (ZR, False) [])
      = selecting_state\<lparr>ROICenterX := 50, ROIWidth := 120, ROIHeight := 120\<rparr>"
    by (simp add: roi_keys_append left_nudges HandleROIKeys_grow selecting_state_simps
        frame_640x480_simps)
  show ?thesis
    unfolding s
    by (simp add: HandleROIKeys_nudge(1) selecting_state_simps selection_rect_def
        in_frame_def quot_def)
qed

text \<open>
  Claim C8, as amended. The claim has the cancel command restore the auto-tracking
  preference that was active before the selection began. The key \<open>s\<close> switches
  tracking and auto-tracking off without recording what they were, and the escape key
  switches auto-tracking on whenever tracking is off. What the code does: from every
  state not in selection, \<open>s\<close> followed by escape ends the selection with
  auto-tracking enabled and tracking disabled, whatever they were before, and does not
  quit; and escape does so from every selecting state in which tracking is off.
\<close>

theorem cancel_enables_auto_tracking:
  "(\<not> ROISelectionMode state \<longrightarrow>
      ROISelectionMode (fst (ProcessInput 115 state frame))
      \<and> \<not> ROISelectionMode (fst (ProcessInput 27 (fst (ProcessInput 115 state frame)) frame'))
      \<and> AutoTrackingEnabled (fst (ProcessInput 27 (fst (ProcessInput 115 state frame)) frame'))
      \<and> \<not> TrackingEnabled (fst (ProcessInput 27 (fst (ProcessInput 115 state frame)) frame'))
      \<and> \<not> snd (ProcessInput 27 (fst (ProcessInput 115 state frame)) frame'))
   \<and> (ROISelectionMode state \<and> \<not> TrackingEnabled state \<longrightarrow>
      ProcessInput 27 state frame
        = (state\<lparr>ROISelectionMode := False, AutoTrackingEnabled := True\<rparr>, False))"
  by (simp add: ProcessInput_s ProcessInput_escape HandleEscapeKey_def Let_def)

theorem cancel_enables_auto_tracking_witness:
  "\<not> ROISelectionMode tracking_state
   \<and> AutoTrackingEnabled (fst (ProcessInput 27
        (fst (ProcessInput 115 tracking_state (frame_640x480 (ZR, False) [])))
        (frame_640x480 (ZR, False) [])))
   \<and> \<not> ROISelectionMode (fst (ProcessInput 27
        (fst (ProcessInput 115 tracking_state (frame_640x480 (ZR, False) [])))
        (frame_640x480 (ZR, False) [])))"
  using cancel_enables_auto_tracking [of tracking_state "frame_640x480 (ZR, False) []"
      "frame_640x480 (ZR, False) []"]
  by (simp add: tracking_state_simps)

text \<open>
  Claim C8 as stated fails: a session that tracks a target has auto-tracking disabled;
  after \<open>s\<close> and escape auto-tracking is enabled.
\<close>

theorem cancel_restores_preference_counterexample:
  "\<not> AutoTrackingEnabled tracking_state
   \<and> ROISelectionMode (fst (ProcessInput 115 tracking_state (frame_640x480 (ZR, False) [])))
   \<and> AutoTrackingEnabled (fst (ProcessInput 27
        (fst (ProcessInput 115 tracking_state (frame_640x480 (ZR, False) [])))
        (frame_640x480 (ZR, False) [])))"
  by (simp add: ProcessInput_s ProcessInput_escape HandleEscapeKey_def Let_def
      tracking_state_def)

end
